theory Spec2Isabelle
  imports Complex_Main
begin


section \<open>Data model of the dashboard script\<close>

text \<open>
  JavaScript numbers are modelled as exact rationals: a finite number is a \<open>rat\<close>, and
  \<open>null\<close>, \<open>undefined\<close> and \<open>NaN\<close> are \<open>None\<close>, so \<open>Number.isFinite v\<close> and
  \<open>v != null\<close> are both \<open>v \<noteq> None\<close>. Rounding of IEEE doubles is outside the model.
  Timestamps are integers (milliseconds, or seconds in \<open>xVals\<close>), and \<open>Math.floor (m / 1000)\<close>
  on an integer is \<open>div 1000\<close>, which rounds towards minus infinity as \<open>Math.floor\<close> does.
\<close>

text \<open>A row of \<open>GET /api/readings\<close>: \<open>{t, p, e}\<close>.\<close>

record reading =
  row_t :: int
  row_p :: "rat option"
  row_e :: "rat option"

text \<open>The values \<open>computeStatsLocal\<close> writes to the statistics panel, before formatting.\<close>

record window_stats =
  count :: nat
  avgP :: "rat option"
  maxP :: "rat option"
  minP :: "rat option"
  energyUsed :: "rat option"
  cost :: "rat option"

text \<open>The object \<open>pointerSelect\<close> (fields \<open>active\<close>, \<open>pointerId\<close>, \<open>startPx\<close>, \<open>startMs\<close>).\<close>

record pointer_select =
  ps_active :: bool
  ps_pointerId :: "nat option"
  ps_startPx :: "rat option"
  ps_startMs :: "int option"

text \<open>
  The module-level variables of the dashboard script. \<open>selection\<close> is \<open>None\<close> for
  \<open>{start: null, end: null}\<close>; \<open>shown\<close> is what the statistics panel displays
  (\<open>None\<close> for the dashes written by \<open>clearSelection\<close>).
\<close>

record app_state =
  xVals :: "int list"
  yVals :: "rat option list"
  eVals :: "rat option list"
  data :: "(int \<times> rat option) list"
  costPerKwh :: rat
  selection :: "(int \<times> int) option"
  pointerSelect :: pointer_select
  shown :: "window_stats option"
  statusWindow :: string

text \<open>\<open>arr[i]\<close> on an array of nullable numbers: out of range reads \<open>undefined\<close>.\<close>

definition elem_at :: "'a option list \<Rightarrow> nat \<Rightarrow> 'a option" where
  "elem_at vs i = (if i < length vs then vs ! i else None)"

section \<open>computeStatsLocal\<close>

text \<open>\<open>let i0 = 0; while (i0 < xVals.length && xVals[i0] < startSec) i0++;\<close>\<close>

function scan_i0 :: "int list \<Rightarrow> int \<Rightarrow> nat \<Rightarrow> nat" where
  "scan_i0 xs startSec i =
     (if i < length xs \<and> xs ! i < startSec then scan_i0 xs startSec (Suc i) else i)"
  by pat_completeness auto
termination
  by (relation "measure (\<lambda>(xs, startSec, i). length xs - i)") auto

declare scan_i0.simps [simp del]

text \<open>\<open>let i1 = xVals.length - 1; while (i1 >= 0 && xVals[i1] > endSec) i1--;\<close>\<close>

function scan_i1 :: "int list \<Rightarrow> int \<Rightarrow> int \<Rightarrow> int" where
  "scan_i1 xs endSec i =
     (if 0 \<le> i \<and> endSec < xs ! nat i then scan_i1 xs endSec (i - 1) else i)"
  by pat_completeness auto
termination
  by (relation "measure (\<lambda>(xs, endSec, i). nat (i + 1))") auto

declare scan_i1.simps [simp del]

text \<open>
  \<open>for (let i = i0; i <= i1; i++) if (eVals[i] != null && ...) { eStart = eVals[i]; break; }\<close>
  The loop runs over the indices \<open>i, i + 1, ..., i + n - 1\<close>.
\<close>

fun first_energy :: "rat option list \<Rightarrow> nat \<Rightarrow> nat \<Rightarrow> rat option" where
  "first_energy es i 0 = None"
| "first_energy es i (Suc n) =
     (case elem_at es i of Some v \<Rightarrow> Some v | None \<Rightarrow> first_energy es (Suc i) n)"

text \<open>
  \<open>for (let i = i1; i >= i0; i--) if (eVals[i] != null && ...) { eEnd = eVals[i]; break; }\<close>
  The loop runs over the indices \<open>i0 + n - 1, ..., i0 + 1, i0\<close>.
\<close>

fun last_energy :: "rat option list \<Rightarrow> nat \<Rightarrow> nat \<Rightarrow> rat option" where
  "last_energy es i0 0 = None"
| "last_energy es i0 (Suc n) =
     (case elem_at es (i0 + n) of Some v \<Rightarrow> Some v | None \<Rightarrow> last_energy es i0 n)"

text \<open>One iteration of the trapezoid loop at index \<open>i\<close> (\<open>i \<ge> 1\<close>): the term added to \<open>sumWs\<close>.\<close>

definition trapezoid_term :: "int list \<Rightarrow> rat option list \<Rightarrow> nat \<Rightarrow> rat" where
  "trapezoid_term xs ys i =
     (let dtSec = xs ! i - xs ! (i - 1) in
      case (elem_at ys i, elem_at ys (i - 1)) of
        (Some yi, Some yp) \<Rightarrow> if 0 < dtSec then (yi + yp) / 2 * of_int dtSec else 0
      | _ \<Rightarrow> 0)"

text \<open>
  \<open>for (let i = i0 + 1; i <= i1; i++) { ... sumWs += wAvg * dtSec; }\<close>, over the indices
  \<open>i, ..., i + n - 1\<close> with the running sum as accumulator.
\<close>

fun trapezoid_loop :: "int list \<Rightarrow> rat option list \<Rightarrow> nat \<Rightarrow> nat \<Rightarrow> rat \<Rightarrow> rat" where
  "trapezoid_loop xs ys i 0 sumWs = sumWs"
| "trapezoid_loop xs ys i (Suc n) sumWs =
     trapezoid_loop xs ys (Suc i) n (sumWs + trapezoid_term xs ys i)"

text \<open>\<open>yVals.slice(i0, i1 + 1).filter((v) => Number.isFinite(v))\<close>\<close>

definition ySlice :: "rat option list \<Rightarrow> nat \<Rightarrow> nat \<Rightarrow> rat list" where
  "ySlice ys i0 i1 = List.map_filter (\<lambda>v. v) (take (Suc i1 - i0) (drop i0 ys))"

text \<open>
  The body of \<open>computeStatsLocal\<close>. \<open>None\<close> is one of the two early \<open>return\<close>s, which
  write nothing to the panel.
\<close>

definition computeStatsLocal :: "app_state \<Rightarrow> int \<Rightarrow> int \<Rightarrow> window_stats option" where
  "computeStatsLocal st startMs endMs =
     (let startSec = startMs div 1000; endSec = endMs div 1000 in
      if xVals st = [] \<or> endSec \<le> startSec then None
      else
        let i0 = scan_i0 (xVals st) startSec 0;
            i1 = scan_i1 (xVals st) endSec (int (length (xVals st)) - 1)
        in
        if i1 < int i0 then None
        else
          let j1 = nat i1;
              sl = ySlice (yVals st) i0 j1;
              cnt = length sl;
              minV = (if cnt \<noteq> 0 then Some (Min (set sl)) else None);
              maxV = (if cnt \<noteq> 0 then Some (Max (set sl)) else None);
              avgV = (if cnt \<noteq> 0 then Some (sum_list sl / of_nat cnt) else None);
              eStart = first_energy (eVals st) i0 (Suc j1 - i0);
              eEnd = last_energy (eVals st) i0 (Suc j1 - i0);
              used = (case (eStart, eEnd) of
                        (Some a, Some b) \<Rightarrow> Some (b - a)
                      | _ \<Rightarrow> Some (trapezoid_loop (xVals st) (yVals st) (Suc i0) (j1 - i0) 0
                                    / 3600000))
          in Some \<lparr>count = cnt, avgP = avgV, maxP = maxV, minP = minV, energyUsed = used,
                   cost = map_option (\<lambda>u. u * costPerKwh st) used\<rparr>)"

text \<open>The effect on the panel: an early return leaves it as it was.\<close>

definition computeStatsLocal_display :: "app_state \<Rightarrow> int \<Rightarrow> int \<Rightarrow> app_state" where
  "computeStatsLocal_display st startMs endMs =
     (case computeStatsLocal st startMs endMs of
        None \<Rightarrow> st
      | Some r \<Rightarrow> st\<lparr>shown := Some r, statusWindow := ''range''\<rparr>)"

section \<open>fetchReadings\<close>

text \<open>
  The body of the \<open>if\<close> inside the derivation loop, for the adjacent rows \<open>a = rows[i - 1]\<close>
  and \<open>b = rows[i]\<close>: the points pushed to \<open>derived\<close> (one or none). Rows are objects and
  their \<open>t\<close> is a number, so \<open>a && b\<close> and the \<open>typeof\<close> tests hold.
\<close>

definition derive_step :: "reading \<Rightarrow> reading \<Rightarrow> (int \<times> rat option) list" where
  "derive_step a b =
     (case (row_e a, row_e b) of
        (Some ea, Some eb) \<Rightarrow>
          if row_t a < row_t b then
            (let dE_kWh = eb - ea; dt_ms = row_t b - row_t a in
             if 0 < dt_ms
             then [(row_t b, Some (max 0 ((dE_kWh * 3600000000) / of_int dt_ms)))]
             else [])
          else []
      | _ \<Rightarrow> [])"

text \<open>\<open>for (let i = 1; i < rows.length; i++) { ... derived.push([b.t, watts]); }\<close>\<close>

fun derived :: "reading list \<Rightarrow> (int \<times> rat option) list" where
  "derived (a # b # rows) = derive_step a b @ derived (b # rows)"
| "derived rows = []"

text \<open>\<open>mapped.length && mapped.every((pt) => pt[1] === null || pt[1] === undefined)\<close>\<close>

definition all_power_null :: "reading list \<Rightarrow> bool" where
  "all_power_null rows = (rows \<noteq> [] \<and> list_all (\<lambda>r. row_p r = None) rows)"

text \<open>The series \<open>mapped\<close> at the end of the derivation block, and the flag \<open>usedDerived\<close>.\<close>

definition usedDerived :: "reading list \<Rightarrow> bool" where
  "usedDerived rows = (all_power_null rows \<and> derived rows \<noteq> [])"

definition mapped :: "reading list \<Rightarrow> (int \<times> rat option) list" where
  "mapped rows = (if usedDerived rows then derived rows else map (\<lambda>r. (row_t r, row_p r)) rows)"

text \<open>
  \<open>updateChart\<close>, as far as the statistics go and with the chart present: with a selection
  whose two bounds are truthy the statistics are recomputed.
\<close>

definition updateChart :: "app_state \<Rightarrow> app_state" where
  "updateChart st =
     (case selection st of
        Some (s, e) \<Rightarrow> if s \<noteq> 0 \<and> e \<noteq> 0 then computeStatsLocal_display st s e else st
      | None \<Rightarrow> st)"

text \<open>
  \<open>fetchReadings\<close> once the response \<open>rows\<close> has arrived (a failed request changes none of
  these variables).
\<close>

definition fetchReadings :: "app_state \<Rightarrow> reading list \<Rightarrow> app_state" where
  "fetchReadings st rows =
     (let m = mapped rows;
          st1 = updateChart (st\<lparr>data := m,
                                 xVals := map (\<lambda>pt. fst pt div 1000) m,
                                 yVals := map snd m,
                                 eVals := map row_e rows\<rparr>)
      in if usedDerived rows then st1\<lparr>statusWindow := ''derived''\<rparr> else st1)"

text \<open>\<open>let costPerKwh = 0.3102;\<close>\<close>

definition default_costPerKwh :: rat where
  "default_costPerKwh = 3102 / 10000"

text \<open>The variables as the script initialises them.\<close>

definition init_state :: app_state where
  "init_state = \<lparr>xVals = [], yVals = [], eVals = [], data = [], costPerKwh = default_costPerKwh,
                 selection = None,
                 pointerSelect = \<lparr>ps_active = False, ps_pointerId = None, ps_startPx = None,
                                  ps_startMs = None\<rparr>,
                 shown = None, statusWindow = ''live''\<rparr>"

section \<open>The window statistics as the specification words them\<close>

text \<open>
  The indices of the samples inside the closed window \<open>[startSec, endSec]\<close>, in series
  order.
\<close>

definition in_window :: "int list \<Rightarrow> int \<Rightarrow> int \<Rightarrow> nat list" where
  "in_window xs startSec endSec =
     filter (\<lambda>i. startSec \<le> xs ! i \<and> xs ! i \<le> endSec) [0..<length xs]"

text \<open>The non-null values of a series at the indices \<open>w\<close>, in order.\<close>

definition window_values :: "rat option list \<Rightarrow> nat list \<Rightarrow> rat list" where
  "window_values vs w = List.map_filter (elem_at vs) w"

text \<open>
  An adjacent pair \<open>(j, i)\<close> of samples has a trapezoid term when both power samples are
  non-null and the timestamp advances.
\<close>

definition computable :: "int list \<Rightarrow> rat option list \<Rightarrow> nat \<times> nat \<Rightarrow> bool" where
  "computable xs ys = (\<lambda>(j, i). elem_at ys j \<noteq> None \<and> elem_at ys i \<noteq> None \<and> xs ! j < xs ! i)"

text \<open>\<open>(p[i] + p[i-1]) / 2 * (t[i] - t[i-1])\<close> for the pair \<open>(i - 1, i)\<close>, in watt-seconds.\<close>

definition pair_area :: "int list \<Rightarrow> rat option list \<Rightarrow> nat \<times> nat \<Rightarrow> rat" where
  "pair_area xs ys =
     (\<lambda>(j, i). case (elem_at ys i, elem_at ys j) of
                 (Some p_i, Some p_j) \<Rightarrow> (p_i + p_j) / 2 * of_int (xs ! i - xs ! j)
               | _ \<Rightarrow> 0)"

text \<open>
  The trapezoidal integral over the samples \<open>w\<close>, in kWh: the sum over the adjacent pairs
  of \<open>w\<close> that have a term, divided by 3 600 000.
\<close>

definition trapezoid_kwh :: "int list \<Rightarrow> rat option list \<Rightarrow> nat list \<Rightarrow> rat" where
  "trapezoid_kwh xs ys w =
     sum_list (map (pair_area xs ys) (filter (computable xs ys) (zip w (tl w)))) / 3600000"

text \<open>The readings of the specification's example scenario.\<close>

definition example_readings :: "reading list" where
  "example_readings =
     [\<lparr>row_t = 0, row_p = Some 100, row_e = Some 1\<rparr>,
      \<lparr>row_t = 3600000, row_p = Some 200, row_e = Some (12 / 10)\<rparr>]"

text \<open>A series across a meter reset: the cumulative counter drops from 5 to 1 kWh.\<close>

definition reset_series :: app_state where
  "reset_series = init_state\<lparr>xVals := [0, 3600], yVals := [Some 100, None],
                              eVals := [Some 5, Some 1]\<rparr>"

text \<open>The example readings with both cumulative-energy values null.\<close>

definition power_only_readings :: "reading list" where
  "power_only_readings =
     [\<lparr>row_t = 0, row_p = Some 100, row_e = None\<rparr>,
      \<lparr>row_t = 3600000, row_p = Some 200, row_e = None\<rparr>]"

text \<open>Two samples one hour apart that carry neither power nor cumulative energy.\<close>

definition null_series :: app_state where
  "null_series = init_state\<lparr>xVals := [0, 3600], yVals := [None, None], eVals := [None, None]\<rparr>"

text \<open>The panel after the example readings were loaded and their full hour selected.\<close>

definition example_shown :: app_state where
  "example_shown = computeStatsLocal_display (fetchReadings init_state example_readings) 0 3600000"

section \<open>The derived power series as the specification words it\<close>

text \<open>
  An adjacent pair \<open>(a, b)\<close> of readings yields a derived point when both cumulative
  energies are non-null and \<open>b\<close> is later than \<open>a\<close>.
\<close>

definition valid_pair :: "reading \<times> reading \<Rightarrow> bool" where
  "valid_pair = (\<lambda>(a, b). row_e a \<noteq> None \<and> row_e b \<noteq> None \<and> row_t a < row_t b)"

text \<open>\<open>max(0, (b.e - a.e) * 3.6e9 / (b.t - a.t))\<close>, in watts.\<close>

definition derived_power :: "reading \<times> reading \<Rightarrow> rat" where
  "derived_power =
     (\<lambda>(a, b). case (row_e a, row_e b) of
                 (Some ea, Some eb) \<Rightarrow> max 0 ((eb - ea) * 3600000000 / of_int (row_t b - row_t a))
               | _ \<Rightarrow> 0)"

text \<open>One point per valid adjacent pair, at the later timestamp of the pair.\<close>

definition derived_series :: "reading list \<Rightarrow> (int \<times> rat option) list" where
  "derived_series rows =
     map (\<lambda>(a, b). (row_t b, Some (derived_power (a, b))))
         (filter valid_pair (zip rows (tl rows)))"

text \<open>Energy-only readings one second apart; the counter drops before the last one.\<close>

definition energy_only_readings :: "reading list" where
  "energy_only_readings =
     [\<lparr>row_t = 0, row_p = None, row_e = Some 1\<rparr>,
      \<lparr>row_t = 1000, row_p = None, row_e = Some 2\<rparr>,
      \<lparr>row_t = 2000, row_p = None, row_e = Some 4\<rparr>,
      \<lparr>row_t = 3000, row_p = None, row_e = Some 3\<rparr>]"

text \<open>Energy-only readings where the middle one carries no energy value.\<close>

definition gap_readings :: "reading list" where
  "gap_readings =
     [\<lparr>row_t = 0, row_p = None, row_e = Some 1\<rparr>,
      \<lparr>row_t = 1000, row_p = None, row_e = None\<rparr>,
      \<lparr>row_t = 2000, row_p = None, row_e = Some 2\<rparr>]"

section \<open>Range selection\<close>

text \<open>
  The bounds \<open>startMs\<close> and \<open>endMs\<close> of \<open>applySelectionRange\<close> after its clamping block.
  Millisecond values are integers here, so the \<open>Number.isFinite\<close> guard holds.
\<close>

definition clamp_selection :: "app_state \<Rightarrow> int \<Rightarrow> int \<Rightarrow> bool \<Rightarrow> int \<times> int" where
  "clamp_selection st startMs endMs clampToData =
     (if clampToData \<and> xVals st \<noteq> [] then
        (let minMs = hd (xVals st) * 1000;
             maxMs = last (xVals st) * 1000;
             s = max minMs (min startMs maxMs);
             e = max minMs (min endMs maxMs)
         in (s, if e \<le> s then min maxMs (s + 1) else e))
      else (startMs, endMs))"

text \<open>
  \<open>applySelectionRange(startMs, endMs, label, clampToData)\<close>: after clamping, an empty or
  inverted range returns without committing; otherwise the selection is committed, the
  statistics are recomputed for it and the status shows the label.
\<close>

definition applySelectionRange :: "app_state \<Rightarrow> int \<Rightarrow> int \<Rightarrow> string \<Rightarrow> bool \<Rightarrow> app_state" where
  "applySelectionRange st startMs endMs lbl clampToData =
     (case clamp_selection st startMs endMs clampToData of
        (s, e) \<Rightarrow>
          if e \<le> s then st
          else (computeStatsLocal_display (st\<lparr>selection := Some (s, e)\<rparr>) s e)
                 \<lparr>statusWindow := lbl\<rparr>)"

definition resetPointerSelectionState :: "app_state \<Rightarrow> app_state" where
  "resetPointerSelectionState st =
     st\<lparr>pointerSelect := \<lparr>ps_active = False, ps_pointerId = None, ps_startPx = None,
                            ps_startMs = None\<rparr>\<rparr>"

text \<open>
  \<open>pxToMs(px)\<close>. The chart \<open>u\<close> is the charting library's object; of it only the projection
  \<open>u.posToVal(px, "x")\<close> from a pixel to seconds matters, so the chart is that function
  (\<open>None\<close> while there is no chart, and a non-finite projection is \<open>None\<close>).
\<close>

definition pxToMs :: "(rat \<Rightarrow> rat option) option \<Rightarrow> rat option \<Rightarrow> int option" where
  "pxToMs u px =
     (case (u, px) of
        (Some posToVal, Some x) \<Rightarrow> map_option (\<lambda>xValSec. \<lfloor>xValSec * 1000\<rfloor>) (posToVal x)
      | _ \<Rightarrow> None)"

text \<open>\<open>finalizePointerSelection(px)\<close>, called at the end of a drag.\<close>

definition finalizePointerSelection ::
    "(rat \<Rightarrow> rat option) option \<Rightarrow> app_state \<Rightarrow> rat option \<Rightarrow> app_state" where
  "finalizePointerSelection u st px =
     (let startMs = ps_startMs (pointerSelect st);
          endMs = pxToMs u (case px of Some x \<Rightarrow> Some x | None \<Rightarrow> ps_startPx (pointerSelect st));
          st1 = resetPointerSelectionState st
      in case (startMs, endMs) of
           (Some a, Some b) \<Rightarrow>
             (let from = min a b;
                  to = max a b
              in applySelectionRange st1 from (if to = from then from + 1 else to) ''range'' True)
         | _ \<Rightarrow> st1)"

text \<open>
  A chart 800 pixels wide that shows the hour of the example readings, and the dashboard
  during a drag that started at pixel \<open>px\<close>.
\<close>

definition hour_chart :: "(rat \<Rightarrow> rat option) option" where
  "hour_chart = Some (\<lambda>x. Some (x * 3600 / 800))"

definition dragging_from :: "rat \<Rightarrow> app_state" where
  "dragging_from x =
     (fetchReadings init_state example_readings)
       \<lparr>pointerSelect := \<lparr>ps_active = True, ps_pointerId = Some 1, ps_startPx = Some x,
                          ps_startMs = pxToMs hour_chart (Some x)\<rparr>\<rparr>"

section \<open>Period comparison\<close>

text \<open>The \<open>stats\<close> object of \<open>GET /api/stats\<close>; every field may be null.\<close>

record api_stats =
  stats_count :: "nat option"
  avg_power_watts :: "rat option"
  max_power_watts :: "rat option"
  min_power_watts :: "rat option"
  energy_used_kwh :: "rat option"

text \<open>A range object \<open>{startMs, endMs}\<close>.\<close>

record ms_range =
  range_startMs :: int
  range_endMs :: int

text \<open>\<open>daysInRange(range)\<close>: \<open>Math.ceil((endMs - startMs) / 86400000)\<close>, null for no range.\<close>

definition daysInRange :: "ms_range option \<Rightarrow> int option" where
  "daysInRange rng =
     (case rng of
        None \<Rightarrow> None
      | Some r \<Rightarrow> Some \<lceil>(of_int (range_endMs r - range_startMs r) :: rat) / 86400000\<rceil>)"

text \<open>
  The pairs \<open>(absoluteVal, pctVal)\<close> that \<open>renderDiff\<close> hands to \<open>setDiffBox\<close>, one per box.
\<close>

record diff_boxes =
  diff_energy :: "rat option \<times> rat option"
  diff_daily_avg :: "rat option \<times> rat option"
  diff_power_avg :: "rat option \<times> rat option"
  diff_cost :: "rat option \<times> rat option"
  diff_cost_per_day :: "rat option \<times> rat option"

text \<open>
  \<open>renderDiff(statsA, statsB, rangeA, rangeB)\<close>. The cost per kWh comes from
  \<open>loadCostPerKwh()\<close> of the shared script and is a parameter here.
\<close>

definition renderDiff ::
    "rat \<Rightarrow> api_stats option \<Rightarrow> api_stats option \<Rightarrow> ms_range option \<Rightarrow> ms_range option
       \<Rightarrow> diff_boxes" where
  "renderDiff costPerKwh' statsA statsB rangeA rangeB =
     (let a = Option.bind statsA energy_used_kwh;
          b = Option.bind statsB energy_used_kwh;
          diffKwh = (case (a, b) of (Some x, Some y) \<Rightarrow> Some (y - x) | _ \<Rightarrow> None);
          diffPct = (case (a, b) of
                       (Some x, Some y) \<Rightarrow> if x \<noteq> 0 then Some ((y - x) / x * 100) else None
                     | _ \<Rightarrow> None);
          diffCost = (case diffKwh of Some d \<Rightarrow> Some (d * costPerKwh') | None \<Rightarrow> None);
          daysA = daysInRange rangeA;
          daysB = daysInRange rangeB;
          dailyAvgA = (case (a, daysA) of
                         (Some x, Some d) \<Rightarrow> if 0 < d then Some (x / of_int d) else None
                       | _ \<Rightarrow> None);
          dailyAvgB = (case (b, daysB) of
                         (Some y, Some d) \<Rightarrow> if 0 < d then Some (y / of_int d) else None
                       | _ \<Rightarrow> None);
          diffDailyAvg = (case (dailyAvgA, dailyAvgB) of
                            (Some x, Some y) \<Rightarrow> Some (y - x) | _ \<Rightarrow> None);
          dailyAvgPct = (case (dailyAvgA, dailyAvgB) of
                           (Some x, Some y) \<Rightarrow> if x \<noteq> 0 then Some ((y - x) / x * 100) else None
                         | _ \<Rightarrow> None);
          avgA = Option.bind statsA avg_power_watts;
          avgB = Option.bind statsB avg_power_watts;
          diffPowerAvg = (case (avgA, avgB) of (Some x, Some y) \<Rightarrow> Some (y - x) | _ \<Rightarrow> None);
          powerPct = (case (avgA, avgB) of
                        (Some x, Some y) \<Rightarrow> if x \<noteq> 0 then Some ((y - x) / x * 100) else None
                      | _ \<Rightarrow> None);
          costA = (case a of Some x \<Rightarrow> Some (x * costPerKwh') | None \<Rightarrow> None);
          costB = (case b of Some y \<Rightarrow> Some (y * costPerKwh') | None \<Rightarrow> None);
          costPct = (case (costA, costB) of
                       (Some x, Some y) \<Rightarrow> if x \<noteq> 0 then Some ((y - x) / x * 100) else None
                     | _ \<Rightarrow> None);
          avgCostPerDayA = (case (costA, daysA) of
                              (Some x, Some d) \<Rightarrow> if 0 < d then Some (x / of_int d) else None
                            | _ \<Rightarrow> None);
          avgCostPerDayB = (case (costB, daysB) of
                              (Some y, Some d) \<Rightarrow> if 0 < d then Some (y / of_int d) else None
                            | _ \<Rightarrow> None);
          diffCostPerDay = (case (avgCostPerDayA, avgCostPerDayB) of
                              (Some x, Some y) \<Rightarrow> Some (y - x) | _ \<Rightarrow> None);
          costPerDayPct = (case (avgCostPerDayA, avgCostPerDayB) of
                             (Some x, Some y) \<Rightarrow>
                               if x \<noteq> 0 then Some ((y - x) / x * 100) else None
                           | _ \<Rightarrow> None)
      in \<lparr>diff_energy = (diffKwh, diffPct),
          diff_daily_avg = (diffDailyAvg, dailyAvgPct),
          diff_power_avg = (diffPowerAvg, powerPct),
          diff_cost = (diffCost, costPct),
          diff_cost_per_day = (diffCostPerDay, costPerDayPct)\<rparr>)"

text \<open>The five boxes in the order energy, daily average, average power, cost, cost per day.\<close>

definition boxes :: "diff_boxes \<Rightarrow> (rat option \<times> rat option) list" where
  "boxes d = [diff_energy d, diff_daily_avg d, diff_power_avg d, diff_cost d, diff_cost_per_day d]"

subsection \<open>The comparison as the specification words it\<close>

text \<open>
  The five metric values of one period, in the same order; a value that cannot be
  computed is missing.
\<close>

definition period_metrics :: "rat \<Rightarrow> api_stats option \<Rightarrow> ms_range option \<Rightarrow> rat option list" where
  "period_metrics c stats rng =
     (let energy = Option.bind stats energy_used_kwh;
          days = (case daysInRange rng of Some d \<Rightarrow> if 0 < d then Some d else None | None \<Rightarrow> None);
          per_day = (\<lambda>v. case (v, days) of (Some x, Some d) \<Rightarrow> Some (x / of_int d) | _ \<Rightarrow> None);
          cost' = map_option (\<lambda>x. x * c) energy
      in [energy, per_day energy, Option.bind stats avg_power_watts, cost', per_day cost'])"

text \<open>\<open>diff = B - A\<close>, for two present values.\<close>

definition absoluteDiff :: "rat option \<Rightarrow> rat option \<Rightarrow> rat option" where
  "absoluteDiff A B = (case (A, B) of (Some x, Some y) \<Rightarrow> Some (y - x) | _ \<Rightarrow> None)"

text \<open>\<open>pctDiff = A != 0 ? diff / A * 100 : null\<close>, for two present values.\<close>

definition percentDiff :: "rat option \<Rightarrow> rat option \<Rightarrow> rat option" where
  "percentDiff A B =
     (case (A, B) of
        (Some x, Some y) \<Rightarrow> if x \<noteq> 0 then Some ((y - x) / x * 100) else None
      | _ \<Rightarrow> None)"

text \<open>Statistics that carry only an energy value, and a range of whole days from the epoch.\<close>

definition energy_stats :: "rat \<Rightarrow> api_stats option" where
  "energy_stats kwh = Some \<lparr>stats_count = None, avg_power_watts = None, max_power_watts = None,
                            min_power_watts = None, energy_used_kwh = Some kwh\<rparr>"

definition days_range :: "int \<Rightarrow> ms_range option" where
  "days_range n = Some \<lparr>range_startMs = 0, range_endMs = n * 86400000 - 1\<rparr>"

section \<open>Dates, the range calendars and the comparison run\<close>

text \<open>
  A JavaScript \<open>Date\<close> is read in the viewer's local time zone, taken here as a fixed
  offset \<open>tz\<close> (milliseconds east of UTC; no daylight-saving changes). A date is then a
  local calendar day, numbered from the local day of the epoch, and a millisecond within
  that day. \<open>getFullYear\<close>, \<open>getMonth\<close> and \<open>getDate\<close> together name the calendar day, so
  \<open>new Date(d.getFullYear(), d.getMonth(), d.getDate() + k, h, mi, s, ms)\<close> is the day
  \<open>k\<close> days after that of \<open>d\<close> at the given time of day.
\<close>

record js_date =
  local_day :: int
  ms_of_day :: int

text \<open>\<open>new Date(ms)\<close>, and \<open>new Date()\<close> when \<open>ms\<close> is the current moment.\<close>

definition date_of_ms :: "int \<Rightarrow> int \<Rightarrow> js_date" where
  "date_of_ms tz ms = \<lparr>local_day = (ms + tz) div 86400000, ms_of_day = (ms + tz) mod 86400000\<rparr>"

text \<open>\<open>new Date(y, m, d, h, mi, s, ms)\<close> for the calendar day \<open>k\<close>.\<close>

definition date_at :: "int \<Rightarrow> int \<Rightarrow> int \<Rightarrow> int \<Rightarrow> int \<Rightarrow> js_date" where
  "date_at k h mi s ms = \<lparr>local_day = k, ms_of_day = ((h * 60 + mi) * 60 + s) * 1000 + ms\<rparr>"

definition getTime :: "int \<Rightarrow> js_date \<Rightarrow> int" where
  "getTime tz d = local_day d * 86400000 + ms_of_day d - tz"

text \<open>\<open>getEndOfTodayMs()\<close>, with the current moment \<open>now\<close> (epoch milliseconds) made explicit.\<close>

definition getEndOfTodayMs :: "int \<Rightarrow> int \<Rightarrow> int" where
  "getEndOfTodayMs tz now =
     (let d = date_of_ms tz now;
          startOfTomorrow = date_at (local_day d + 1) 0 0 0 0
      in getTime tz startOfTomorrow - 1)"

text \<open>\<open>trimRangeToToday(range)\<close>; the bounds are integers, hence finite.\<close>

definition trimRangeToToday :: "int \<Rightarrow> int \<Rightarrow> ms_range option \<Rightarrow> ms_range option" where
  "trimRangeToToday tz now rng =
     (case rng of
        None \<Rightarrow> None
      | Some r \<Rightarrow>
          (let endOfToday = getEndOfTodayMs tz now
           in Some \<lparr>range_startMs = range_startMs r,
                    range_endMs = min (range_endMs r) endOfToday\<rparr>))"

text \<open>The variables \<open>startDate\<close>, \<open>endDate\<close> and \<open>step\<close> in the closure of a range calendar.\<close>

record range_calendar =
  startDate :: "js_date option"
  endDate :: "js_date option"
  step :: string

text \<open>\<open>createRangeCalendar(containerEl, initialStart, initialEnd, options)\<close>: the initial closure.\<close>

definition createRangeCalendar :: "js_date option \<Rightarrow> js_date option \<Rightarrow> range_calendar" where
  "createRangeCalendar initialStart initialEnd =
     (let sd = map_option (\<lambda>d. date_at (local_day d) 0 0 0 0) initialStart;
          ed = map_option (\<lambda>d. date_at (local_day d) 0 0 0 0) initialEnd
      in \<lparr>startDate = sd, endDate = ed,
          step = (if sd \<noteq> None \<and> ed = None then ''end'' else ''start'')\<rparr>)"

text \<open>
  The click listener of a day button. The button's \<open>data-date\<close> names a calendar day \<open>k\<close>,
  and \<open>clicked = new Date(y, m - 1, day)\<close> is that day at midnight.
\<close>

definition click_day :: "int \<Rightarrow> range_calendar \<Rightarrow> int \<Rightarrow> range_calendar" where
  "click_day tz cal k =
     (let clicked = date_at k 0 0 0 0 in
      if step cal = ''start''
      then \<lparr>startDate = Some clicked, endDate = None, step = ''end''\<rparr>
      else (case startDate cal of
              Some sd \<Rightarrow>
                if getTime tz clicked < getTime tz sd
                then \<lparr>startDate = Some clicked, endDate = Some sd, step = ''start''\<rparr>
                else \<lparr>startDate = Some sd, endDate = Some clicked, step = ''start''\<rparr>
            | None \<Rightarrow> \<lparr>startDate = None, endDate = Some clicked, step = ''start''\<rparr>))"

text \<open>\<open>getRange()\<close>\<close>

definition getRange :: "int \<Rightarrow> range_calendar \<Rightarrow> ms_range option" where
  "getRange tz cal =
     (case (startDate cal, endDate cal) of
        (Some sd, Some ed) \<Rightarrow>
          (let s = date_at (local_day sd) 0 0 0 0;
               e = date_at (local_day ed) 23 59 59 999
           in Some \<lparr>range_startMs = getTime tz s, range_endMs = getTime tz e\<rparr>)
      | _ \<Rightarrow> None)"

text \<open>
  \<open>runCompare\<close> up to its requests: \<open>None\<close> when a calendar has no range (an error is shown
  and nothing is fetched), otherwise the two trimmed ranges whose bounds go into the
  \<open>/api/stats\<close> and \<open>/api/readings\<close> requests.
\<close>

definition runCompare ::
    "int \<Rightarrow> int \<Rightarrow> range_calendar option \<Rightarrow> range_calendar option
       \<Rightarrow> (ms_range \<times> ms_range) option" where
  "runCompare tz now calendarA calendarB =
     (let rangeA = Option.bind calendarA (getRange tz);
          rangeB = Option.bind calendarB (getRange tz)
      in if rangeA = None \<or> rangeB = None then None
         else (case (trimRangeToToday tz now rangeA, trimRangeToToday tz now rangeB) of
                 (Some trimmedA, Some trimmedB) \<Rightarrow> Some (trimmedA, trimmedB)
               | _ \<Rightarrow> None))"

text \<open>A fresh calendar (zone UTC) in which day \<open>d1\<close> and then day \<open>d2\<close> were clicked.\<close>

definition picked_days :: "int \<Rightarrow> int \<Rightarrow> range_calendar" where
  "picked_days d1 d2 = click_day 0 (click_day 0 (createRangeCalendar None None) d1) d2"

section \<open>The persisted cost per kWh\<close>

text \<open>
  \<open>loadCostFromStorage()\<close>, as far as \<open>costPerKwh\<close> goes. \<open>stored\<close> is
  \<open>localStorage.getItem("cost_per_kwh")\<close> (\<open>None\<close> for a missing key), \<open>input\<close> is the value of
  the \<open>cost-input\<close> element (\<open>None\<close> when the page has no such element), and \<open>parseFloat\<close> is
  the built-in, with \<open>None\<close> for \<open>NaN\<close>. In \<open>parseFloat(v) || costPerKwh\<close> both \<open>NaN\<close> and 0 are
  falsy.
\<close>

definition loadCostFromStorage ::
    "(string \<Rightarrow> rat option) \<Rightarrow> string option \<Rightarrow> string option \<Rightarrow> app_state \<Rightarrow> app_state" where
  "loadCostFromStorage parseFloat stored input st =
     (case stored of
        Some v \<Rightarrow>
          st\<lparr>costPerKwh := (case parseFloat v of
                               Some x \<Rightarrow> if x \<noteq> 0 then x else costPerKwh st
                             | None \<Rightarrow> costPerKwh st)\<rparr>
      | None \<Rightarrow>
          (case input of
             Some w \<Rightarrow>
               st\<lparr>costPerKwh := (case parseFloat w of
                                    Some x \<Rightarrow> if x \<noteq> 0 then x else costPerKwh st
                                  | None \<Rightarrow> costPerKwh st)\<rparr>
           | None \<Rightarrow> st))"

text \<open>
  A reading of \<open>parseFloat\<close> on plain decimal strings: an optional sign, digits and an
  optional fraction, whatever follows being ignored; \<open>NaN\<close> when there is no digit. It agrees
  with the built-in on strings without leading white space, exponent or \<open>Infinity\<close>.
\<close>

definition is_digit :: "char \<Rightarrow> bool" where
  "is_digit c = (c \<in> set ''0123456789'')"

fun digits_value :: "nat \<Rightarrow> string \<Rightarrow> nat" where
  "digits_value acc [] = acc"
| "digits_value acc (c # cs) = digits_value (acc * 10 + (of_char c - 48)) cs"

definition unsigned_decimal :: "string \<Rightarrow> rat option" where
  "unsigned_decimal s =
     (let ip = takeWhile is_digit s;
          fp = (case dropWhile is_digit s of
                  c # r \<Rightarrow> if c = CHR ''.'' then takeWhile is_digit r else []
                | [] \<Rightarrow> [])
      in if ip = [] \<and> fp = [] then None
         else Some (of_nat (digits_value 0 ip) + of_nat (digits_value 0 fp) / 10 ^ length fp))"

definition parseDecimal :: "string \<Rightarrow> rat option" where
  "parseDecimal s =
     (case s of
        [] \<Rightarrow> None
      | c # r \<Rightarrow>
          if c = CHR ''-'' then map_option uminus (unsigned_decimal r)
          else if c = CHR ''+'' then unsigned_decimal r
          else unsigned_decimal s)"

section \<open>Chart requests of the mobile dashboard\<close>

text \<open>
  The mobile script is event driven: a call of \<open>fetchChartData\<close> runs up to its
  \<open>await Promise.all([fetch ..., fetch ...])\<close> and the rest runs when the two responses have
  settled, in whatever order the network delivers them. A request is numbered by the order
  of issue, and its \<open>AbortController\<close> carries the same number. \<open>aborted\<close> lists the
  controllers on which \<open>abort()\<close> was called, \<open>pending\<close> the requests not yet settled with
  their \<open>days\<close> argument, and \<open>chart_days\<close> is the \<open>days\<close> of the readings the chart shows.
\<close>

record mobile_state =
  chartLoaded :: bool
  chartAbortController :: "nat option"
  aborted :: "nat list"
  pending :: "(nat \<times> int) list"
  issued :: nat
  chart_days :: "int option"

definition mobile_init :: mobile_state where
  "mobile_init = \<lparr>chartLoaded = False, chartAbortController = None, aborted = [], pending = [],
                   issued = 0, chart_days = None\<rparr>"

text \<open>
  \<open>fetchChartData(days)\<close> up to the \<open>await\<close>: a new controller replaces the variable
  \<open>chartAbortController\<close>, and the two fetches are issued with its signal.
\<close>

definition fetchChartData :: "mobile_state \<Rightarrow> int \<Rightarrow> mobile_state" where
  "fetchChartData s days =
     s\<lparr>chartAbortController := Some (issued s),
       pending := pending s @ [(issued s, days)],
       issued := Suc (issued s)\<rparr>"

text \<open>
  The rest of \<open>fetchChartData\<close> for request \<open>i\<close> once its fetches have settled: an aborted
  request throws \<open>AbortError\<close> and returns; a successful one draws the chart and sets
  \<open>chartLoaded\<close>; a failed one hides the chart content. The \<open>finally\<close> block clears
  \<open>chartAbortController\<close> in every case.
\<close>

definition fetchChartData_settled :: "mobile_state \<Rightarrow> nat \<Rightarrow> bool \<Rightarrow> mobile_state" where
  "fetchChartData_settled s i ok =
     (case map_of (pending s) i of
        None \<Rightarrow> s
      | Some days \<Rightarrow>
          (let s1 = s\<lparr>pending := filter (\<lambda>r. fst r \<noteq> i) (pending s)\<rparr>;
               s2 = (if i \<in> set (aborted s) then s1
                     else if ok then s1\<lparr>chart_days := Some days, chartLoaded := True\<rparr>
                     else s1\<lparr>chartLoaded := False\<rparr>)
           in s2\<lparr>chartAbortController := None\<rparr>))"

definition hideChart :: "mobile_state \<Rightarrow> mobile_state" where
  "hideChart s =
     s\<lparr>aborted := (case chartAbortController s of Some c \<Rightarrow> c # aborted s | None \<Rightarrow> aborted s),
       chartAbortController := None,
       chartLoaded := False,
       chart_days := None\<rparr>"

text \<open>\<open>handleDaysChange\<close>, with \<open>value\<close> the parsed input; the summary fetch is another group.\<close>

definition handleDaysChange :: "mobile_state \<Rightarrow> int \<Rightarrow> mobile_state" where
  "handleDaysChange s v = (if chartLoaded s then fetchChartData s v else s)"

text \<open>The click listener of the show/hide chart button.\<close>

definition showChart_click :: "mobile_state \<Rightarrow> int \<Rightarrow> mobile_state" where
  "showChart_click s days = (if chartLoaded s then hideChart s else fetchChartData s days)"

datatype mobile_event = ShowChartClick int | DaysChange int | Settled nat bool

fun mobile_step :: "mobile_state \<Rightarrow> mobile_event \<Rightarrow> mobile_state" where
  "mobile_step s (ShowChartClick days) = showChart_click s days"
| "mobile_step s (DaysChange v) = handleDaysChange s v"
| "mobile_step s (Settled i ok) = fetchChartData_settled s i ok"

definition mobile_run :: "mobile_event list \<Rightarrow> mobile_state" where
  "mobile_run evs = foldl mobile_step mobile_init evs"



section \<open>The loops of computeStatsLocal\<close>

lemma scan_i0_bounds: "i \<le> length xs \<Longrightarrow> i \<le> scan_i0 xs s i \<and> scan_i0 xs s i \<le> length xs"
proof (induction xs s i rule: scan_i0.induct)
  case (1 xs s i)
  show ?case
  proof (cases "i < length xs \<and> xs ! i < s")
    case True
    then have eq: "scan_i0 xs s i = scan_i0 xs s (Suc i)" by (subst scan_i0.simps) simp
    with "1.IH"[OF True] True show ?thesis by simp
  next
    case False
    then have "scan_i0 xs s i = i" by (subst scan_i0.simps) auto
    with "1.prems" show ?thesis by simp
  qed
qed

lemma scan_i0_below: "i \<le> j \<Longrightarrow> j < scan_i0 xs s i \<Longrightarrow> xs ! j < s"
proof (induction xs s i rule: scan_i0.induct)
  case (1 xs s i)
  show ?case
  proof (cases "i < length xs \<and> xs ! i < s")
    case True
    then have eq: "scan_i0 xs s i = scan_i0 xs s (Suc i)" by (subst scan_i0.simps) simp
    show ?thesis
    proof (cases "j = i")
      case True with \<open>i < length xs \<and> xs ! i < s\<close> show ?thesis by simp
    next
      case False
      with "1.prems" have "Suc i \<le> j" by simp
      with "1.IH"[OF True] "1.prems" eq show ?thesis by simp
    qed
  next
    case False
    then have "scan_i0 xs s i = i" by (subst scan_i0.simps) auto
    with "1.prems" show ?thesis by simp
  qed
qed

lemma scan_i0_at: "scan_i0 xs s i < length xs \<Longrightarrow> s \<le> xs ! scan_i0 xs s i"
proof (induction xs s i rule: scan_i0.induct)
  case (1 xs s i)
  show ?case
  proof (cases "i < length xs \<and> xs ! i < s")
    case True
    then have eq: "scan_i0 xs s i = scan_i0 xs s (Suc i)" by (subst scan_i0.simps) simp
    with "1.IH"[OF True] "1.prems" show ?thesis by simp
  next
    case False
    then have eq: "scan_i0 xs s i = i" by (subst scan_i0.simps) auto
    with "1.prems" False show ?thesis by auto
  qed
qed

lemma scan_i1_bounds: "- 1 \<le> i \<Longrightarrow> - 1 \<le> scan_i1 xs e i \<and> scan_i1 xs e i \<le> i"
proof (induction xs e i rule: scan_i1.induct)
  case (1 xs e i)
  show ?case
  proof (cases "0 \<le> i \<and> e < xs ! nat i")
    case True
    then have eq: "scan_i1 xs e i = scan_i1 xs e (i - 1)" by (subst scan_i1.simps) simp
    with "1.IH"[OF True] True show ?thesis by simp
  next
    case False
    then have eq: "scan_i1 xs e i = i" by (subst scan_i1.simps) auto
    with "1.prems" show ?thesis by simp
  qed
qed

lemma scan_i1_above: "scan_i1 xs e i < j \<Longrightarrow> j \<le> i \<Longrightarrow> e < xs ! nat j"
proof (induction xs e i rule: scan_i1.induct)
  case (1 xs e i)
  show ?case
  proof (cases "0 \<le> i \<and> e < xs ! nat i")
    case True
    then have eq: "scan_i1 xs e i = scan_i1 xs e (i - 1)" by (subst scan_i1.simps) simp
    show ?thesis
    proof (cases "j = i")
      case True with \<open>0 \<le> i \<and> e < xs ! nat i\<close> show ?thesis by simp
    next
      case False
      with "1.prems" have "j \<le> i - 1" by simp
      with "1.IH"[OF True] "1.prems" eq show ?thesis by simp
    qed
  next
    case False
    then have "scan_i1 xs e i = i" by (subst scan_i1.simps) auto
    with "1.prems" show ?thesis by simp
  qed
qed

lemma scan_i1_at: "0 \<le> scan_i1 xs e i \<Longrightarrow> xs ! nat (scan_i1 xs e i) \<le> e"
proof (induction xs e i rule: scan_i1.induct)
  case (1 xs e i)
  show ?case
  proof (cases "0 \<le> i \<and> e < xs ! nat i")
    case True
    then have eq: "scan_i1 xs e i = scan_i1 xs e (i - 1)" by (subst scan_i1.simps) simp
    with "1.IH"[OF True] "1.prems" show ?thesis by simp
  next
    case False
    then have eq: "scan_i1 xs e i = i" by (subst scan_i1.simps) auto
    with "1.prems" False show ?thesis by auto
  qed
qed

lemma filter_upt_range:
  assumes "\<And>j. j < n \<Longrightarrow> P j \<longleftrightarrow> a \<le> j \<and> j < b" and "b \<le> n"
  shows "filter P [0..<n] = [a..<b]"
proof (rule sorted_distinct_set_unique)
  show "sorted (filter P [0..<n])" by (simp add: sorted_wrt_filter)
  show "distinct (filter P [0..<n])" by simp
  show "set (filter P [0..<n]) = set [a..<b]" using assms by auto
qed simp_all

lemma in_window_range:
  assumes srt: "sorted xs"
    and i0: "i0 = scan_i0 xs s 0" and i1: "i1 = scan_i1 xs e (int (length xs) - 1)"
    and le: "int i0 \<le> i1"
  shows "in_window xs s e = [i0..<Suc (nat i1)]"
proof -
  have b1: "i1 \<le> int (length xs) - 1" and b1': "- 1 \<le> i1"
    using scan_i1_bounds[of "int (length xs) - 1" xs e] i1 by auto
  have i1n: "nat i1 < length xs" and i0n: "i0 < length xs" using b1 le by auto
  have at0: "s \<le> xs ! i0" using scan_i0_at[of xs s 0] i0 i0n by simp
  have at1: "xs ! nat i1 \<le> e" using scan_i1_at[of xs e "int (length xs) - 1"] i1 le by simp
  have "(s \<le> xs ! j \<and> xs ! j \<le> e) \<longleftrightarrow> (i0 \<le> j \<and> j < Suc (nat i1))" if j: "j < length xs" for j
  proof
    assume inw: "s \<le> xs ! j \<and> xs ! j \<le> e"
    have "i0 \<le> j"
    proof (rule ccontr)
      assume "\<not> i0 \<le> j"
      then have "xs ! j < s" using scan_i0_below[of 0 j xs s] i0 by simp
      with inw show False by simp
    qed
    moreover have "int j \<le> i1"
    proof (rule ccontr)
      assume "\<not> int j \<le> i1"
      then have "e < xs ! nat (int j)"
        using scan_i1_above[of xs e "int (length xs) - 1" "int j"] i1 j by simp
      with inw show False by simp
    qed
    ultimately show "i0 \<le> j \<and> j < Suc (nat i1)" by simp
  next
    assume r: "i0 \<le> j \<and> j < Suc (nat i1)"
    have "xs ! i0 \<le> xs ! j" using srt r j by (simp add: sorted_nth_mono)
    moreover have "xs ! j \<le> xs ! nat i1" using srt r i1n by (simp add: sorted_nth_mono)
    ultimately show "s \<le> xs ! j \<and> xs ! j \<le> e" using at0 at1 by simp
  qed
  then show ?thesis
    unfolding in_window_def using i1n by (intro filter_upt_range) auto
qed

lemma in_window_scan:
  assumes "j \<in> set (in_window xs s e)"
  shows "scan_i0 xs s 0 \<le> j \<and> int j \<le> scan_i1 xs e (int (length xs) - 1)"
proof -
  from assms have j: "j < length xs" and inw: "s \<le> xs ! j" "xs ! j \<le> e"
    by (auto simp: in_window_def)
  have "scan_i0 xs s 0 \<le> j"
  proof (rule ccontr)
    assume "\<not> scan_i0 xs s 0 \<le> j"
    then have "xs ! j < s" using scan_i0_below[of 0 j xs s] by simp
    with inw show False by simp
  qed
  moreover have "int j \<le> scan_i1 xs e (int (length xs) - 1)"
  proof (rule ccontr)
    assume "\<not> int j \<le> scan_i1 xs e (int (length xs) - 1)"
    then have "e < xs ! nat (int j)"
      using scan_i1_above[of xs e "int (length xs) - 1" "int j"] j by simp
    with inw show False by simp
  qed
  ultimately show ?thesis by simp
qed

lemma map_filter_append: "List.map_filter f (xs @ ys) = List.map_filter f xs @ List.map_filter f ys"
  by (simp add: List.map_filter_def)

lemma slice_values:
  "List.map_filter (\<lambda>v. v) (take n (drop i ys)) = List.map_filter (elem_at ys) [i..<i + n]"
proof (induction n)
  case 0
  show ?case by (simp add: List.map_filter_def)
next
  case (Suc n)
  show ?case
  proof (cases "i + n < length ys")
    case True
    then have "take (Suc n) (drop i ys) = take n (drop i ys) @ [ys ! (i + n)]"
      by (simp add: take_Suc_conv_app_nth)
    with Suc True show ?thesis
      by (simp add: map_filter_append elem_at_def List.map_filter_def)
  next
    case False
    then have "take (Suc n) (drop i ys) = take n (drop i ys)" by simp
    with Suc False show ?thesis
      by (simp add: map_filter_append elem_at_def List.map_filter_def)
  qed
qed

lemma ySlice_window: "i0 \<le> Suc j1 \<Longrightarrow> ySlice ys i0 j1 = window_values ys [i0..<Suc j1]"
  using slice_values[of "Suc j1 - i0" i0 ys] by (simp add: ySlice_def window_values_def)

lemma first_energy_window:
  "first_energy es i n = (case window_values es [i..<i + n] of [] \<Rightarrow> None | v # _ \<Rightarrow> Some v)"
proof (induction n arbitrary: i)
  case 0
  show ?case by (simp add: window_values_def List.map_filter_def)
next
  case (Suc n)
  have "[i..<i + Suc n] = i # [Suc i..<Suc i + n]" by (simp add: upt_conv_Cons)
  then show ?case using Suc[of "Suc i"]
    by (simp add: window_values_def List.map_filter_def split: option.splits)
qed

lemma last_energy_window:
  "last_energy es i n =
     (if window_values es [i..<i + n] = [] then None else Some (last (window_values es [i..<i + n])))"
proof (induction n)
  case 0
  show ?case by (simp add: window_values_def List.map_filter_def)
next
  case (Suc n)
  then show ?case
    by (simp add: window_values_def map_filter_append List.map_filter_def split: option.splits)
qed

lemma trapezoid_loop_sum:
  "trapezoid_loop xs ys i n acc = acc + sum_list (map (trapezoid_term xs ys) [i..<i + n])"
proof (induction n arbitrary: i acc)
  case 0
  show ?case by simp
next
  case (Suc n)
  have "[i..<i + Suc n] = i # [Suc i..<Suc i + n]" by (simp add: upt_conv_Cons)
  then show ?case using Suc[of "Suc i"] by (simp add: add.assoc)
qed

lemma computeStatsLocal_window:
  assumes srt: "sorted (xVals st)"
    and secs: "startMs div 1000 < endMs div 1000"
    and w: "w = in_window (xVals st) (startMs div 1000) (endMs div 1000)"
    and ne: "w \<noteq> []"
    and wp: "wp = window_values (yVals st) w"
    and we: "we = window_values (eVals st) w"
    and used: "used = (if we = [] then sum_list (map (trapezoid_term (xVals st) (yVals st)) (tl w)) / 3600000
                       else last we - hd we)"
  shows "computeStatsLocal st startMs endMs =
           Some \<lparr>count = length wp,
                 avgP = (if wp = [] then None else Some (sum_list wp / of_nat (length wp))),
                 maxP = (if wp = [] then None else Some (Max (set wp))),
                 minP = (if wp = [] then None else Some (Min (set wp))),
                 energyUsed = Some used,
                 cost = Some (used * costPerKwh st)\<rparr>"
proof -
  define i0 where "i0 = scan_i0 (xVals st) (startMs div 1000) 0"
  define i1 where "i1 = scan_i1 (xVals st) (endMs div 1000) (int (length (xVals st)) - 1)"
  from ne obtain j where j: "j \<in> set w" by (cases w) auto
  then have le: "int i0 \<le> i1"
    using in_window_scan[of j "xVals st" "startMs div 1000" "endMs div 1000"] w
    by (simp add: i0_def i1_def)
  have xne: "xVals st \<noteq> []" using j w by (auto simp: in_window_def)
  have wr: "w = [i0..<Suc (nat i1)]"
    using in_window_range[OF srt i0_def i1_def le] w by simp
  have le': "i0 \<le> nat i1" using le by simp
  have sl: "ySlice (yVals st) i0 (nat i1) = wp"
    using ySlice_window[of i0 "nat i1" "yVals st"] le' wp wr by simp
  have rng: "[i0..<i0 + (Suc (nat i1) - i0)] = w" using le' wr by simp
  have fe: "first_energy (eVals st) i0 (Suc (nat i1) - i0) = (case we of [] \<Rightarrow> None | v # _ \<Rightarrow> Some v)"
    by (simp only: first_energy_window rng we)
  have la: "last_energy (eVals st) i0 (Suc (nat i1) - i0) = (if we = [] then None else Some (last we))"
    by (simp only: last_energy_window rng we)
  have tlw: "[Suc i0..<Suc i0 + (nat i1 - i0)] = tl w" using le' wr by simp
  have tr: "trapezoid_loop (xVals st) (yVals st) (Suc i0) (nat i1 - i0) 0
              = sum_list (map (trapezoid_term (xVals st) (yVals st)) (tl w))"
    by (simp only: trapezoid_loop_sum tlw add_0)
  have en: "(case (first_energy (eVals st) i0 (Suc (nat i1) - i0),
                   last_energy (eVals st) i0 (Suc (nat i1) - i0)) of
               (Some a, Some b) \<Rightarrow> Some (b - a)
             | _ \<Rightarrow> Some (trapezoid_loop (xVals st) (yVals st) (Suc i0) (nat i1 - i0) 0 / 3600000))
            = Some used"
    unfolding fe la tr used by (cases we) simp_all
  have guard1: "\<not> (xVals st = [] \<or> endMs div 1000 \<le> startMs div 1000)" using xne secs by simp
  have guard2: "\<not> i1 < int i0" using le by simp
  show ?thesis
    unfolding computeStatsLocal_def Let_def i0_def[symmetric] i1_def[symmetric]
    using guard1 guard2 by (simp only: if_False sl en) simp
qed


lemma zip_upt_tl: "zip [a..<b] (tl [a..<b]) = map (\<lambda>i. (i - 1, i)) [Suc a..<b]"
  by (rule nth_equalityI) (auto simp: tl_upt)

lemma trapezoid_term_pair:
  "0 < i \<Longrightarrow> trapezoid_term xs ys i =
     (if computable xs ys (i - 1, i) then pair_area xs ys (i - 1, i) else 0)"
  by (auto simp: trapezoid_term_def computable_def pair_area_def Let_def split: option.splits)

lemma trapezoid_interval:
  "sum_list (map (trapezoid_term xs ys) (tl [a..<b])) / 3600000 = trapezoid_kwh xs ys [a..<b]"
proof -
  have "map (trapezoid_term xs ys) [Suc a..<b]
          = map (\<lambda>i. if computable xs ys (i - 1, i) then pair_area xs ys (i - 1, i) else 0) [Suc a..<b]"
    by (rule map_cong) (auto simp: trapezoid_term_pair)
  then have "sum_list (map (trapezoid_term xs ys) [Suc a..<b])
          = sum_list (map (\<lambda>i. if computable xs ys (i - 1, i) then pair_area xs ys (i - 1, i) else 0) [Suc a..<b])"
    by (rule arg_cong)
  then show ?thesis
    unfolding trapezoid_kwh_def zip_upt_tl
    by (simp add: sum_list_map_filter' comp_def filter_map cong: if_cong)
qed

lemma in_window_interval:
  assumes "sorted xs"
  shows "\<exists>a b. in_window xs s e = [a..<b]"
proof (cases "in_window xs s e = []")
  case True
  then have "in_window xs s e = [0..<0]" by simp
  then show ?thesis by blast
next
  case False
  then obtain j where "j \<in> set (in_window xs s e)" by (cases "in_window xs s e") auto
  then have "int (scan_i0 xs s 0) \<le> scan_i1 xs e (int (length xs) - 1)"
    using in_window_scan[of j xs s e] by simp
  from in_window_range[OF assms refl refl this] show ?thesis by blast
qed


subsection \<open>What the statistics and the chart update leave unchanged\<close>

lemma computeStatsLocal_display_series:
  "xVals (computeStatsLocal_display st s e) = xVals st"
  "yVals (computeStatsLocal_display st s e) = yVals st"
  "eVals (computeStatsLocal_display st s e) = eVals st"
  "data (computeStatsLocal_display st s e) = data st"
  "selection (computeStatsLocal_display st s e) = selection st"
  "costPerKwh (computeStatsLocal_display st s e) = costPerKwh st"
  by (simp_all add: computeStatsLocal_display_def split: option.splits)

lemma updateChart_series:
  "xVals (updateChart st) = xVals st"
  "yVals (updateChart st) = yVals st"
  "eVals (updateChart st) = eVals st"
  "data (updateChart st) = data st"
  "selection (updateChart st) = selection st"
  "costPerKwh (updateChart st) = costPerKwh st"
  by (simp_all add: updateChart_def computeStatsLocal_display_series split: option.splits prod.splits)

lemma fetchReadings_series:
  "data (fetchReadings st rows) = mapped rows"
  "xVals (fetchReadings st rows) = map (\<lambda>pt. fst pt div 1000) (mapped rows)"
  "yVals (fetchReadings st rows) = map snd (mapped rows)"
  "eVals (fetchReadings st rows) = map row_e rows"
  by (simp_all add: fetchReadings_def Let_def updateChart_series)

section \<open>Claims about the window statistics\<close>

text \<open>
  C1, as amended. For the example readings
  \<open>[{t:0,p:100,e:1.0},{t:3600000,p:200,e:1.2}]\<close> the statistics over the window
  \<open>[0, 3600000]\<close> are count 2, average power 150, minimum 100, maximum 200 and
  \<open>energyUsedKwh = 0.2\<close>. In general, for an index-aligned, time-ordered series and a window
  whose end falls in a later second than its start and which contains a sample: count,
  average, minimum and maximum are those of exactly the non-null power samples inside the
  window, and whenever a non-null cumulative-energy sample lies inside the window the energy
  used is the last such sample minus the first one, with no correction of a negative
  difference.
\<close>

theorem window_stats_endpoint_delta:
  "computeStatsLocal (fetchReadings init_state example_readings) 0 3600000
     = Some \<lparr>count = 2, avgP = Some 150, maxP = Some 200, minP = Some 100,
             energyUsed = Some (2 / 10), cost = Some (2 / 10 * default_costPerKwh)\<rparr>
   \<and> (length (yVals st) = length (xVals st) \<and> length (eVals st) = length (xVals st)
        \<and> sorted (xVals st) \<and> startMs div 1000 < endMs div 1000
        \<and> w = in_window (xVals st) (startMs div 1000) (endMs div 1000) \<and> w \<noteq> []
        \<and> wp = window_values (yVals st) w \<and> we = window_values (eVals st) w
      \<longrightarrow> (\<exists>r. computeStatsLocal st startMs endMs = Some r
               \<and> count r = length wp
               \<and> avgP r = (if wp = [] then None else Some (sum_list wp / of_nat (length wp)))
               \<and> minP r = (if wp = [] then None else Some (Min (set wp)))
               \<and> maxP r = (if wp = [] then None else Some (Max (set wp)))
               \<and> (we \<noteq> [] \<longrightarrow> energyUsed r = Some (last we - hd we))))"
proof (intro conjI impI)
  show "computeStatsLocal (fetchReadings init_state example_readings) 0 3600000
     = Some \<lparr>count = 2, avgP = Some 150, maxP = Some 200, minP = Some 100,
             energyUsed = Some (2 / 10), cost = Some (2 / 10 * default_costPerKwh)\<rparr>"
    by (simp add: computeStatsLocal_def fetchReadings_def example_readings_def init_state_def
        mapped_def usedDerived_def all_power_null_def updateChart_def ySlice_def
        List.map_filter_def elem_at_def Let_def scan_i0.simps scan_i1.simps)
next
  assume h: "length (yVals st) = length (xVals st) \<and> length (eVals st) = length (xVals st)
        \<and> sorted (xVals st) \<and> startMs div 1000 < endMs div 1000
        \<and> w = in_window (xVals st) (startMs div 1000) (endMs div 1000) \<and> w \<noteq> []
        \<and> wp = window_values (yVals st) w \<and> we = window_values (eVals st) w"
  then have h1: "sorted (xVals st)" and h2: "startMs div 1000 < endMs div 1000"
    and h3: "w = in_window (xVals st) (startMs div 1000) (endMs div 1000)" and h4: "w \<noteq> []"
    and h5: "wp = window_values (yVals st) w" and h6: "we = window_values (eVals st) w"
    by blast+
  have "computeStatsLocal st startMs endMs =
           Some \<lparr>count = length wp,
                 avgP = (if wp = [] then None else Some (sum_list wp / of_nat (length wp))),
                 maxP = (if wp = [] then None else Some (Max (set wp))),
                 minP = (if wp = [] then None else Some (Min (set wp))),
                 energyUsed = Some (if we = [] then sum_list (map (trapezoid_term (xVals st) (yVals st)) (tl w)) / 3600000
                       else last we - hd we),
                 cost = Some ((if we = [] then sum_list (map (trapezoid_term (xVals st) (yVals st)) (tl w)) / 3600000
                       else last we - hd we) * costPerKwh st)\<rparr>"
    by (rule computeStatsLocal_window[OF h1 h2 h3 h4 h5 h6 refl])
  then show "\<exists>r. computeStatsLocal st startMs endMs = Some r
               \<and> count r = length wp
               \<and> avgP r = (if wp = [] then None else Some (sum_list wp / of_nat (length wp)))
               \<and> minP r = (if wp = [] then None else Some (Min (set wp)))
               \<and> maxP r = (if wp = [] then None else Some (Max (set wp)))
               \<and> (we \<noteq> [] \<longrightarrow> energyUsed r = Some (last we - hd we))"
    by simp
qed

lemma reset_facts:
  "in_window (xVals reset_series) 0 3600 = [0, 1]"
  "window_values (yVals reset_series) [0, 1] = [100]"
  "window_values (eVals reset_series) [0, 1] = [5, 1]"
  by (simp_all add: reset_series_def init_state_def in_window_def window_values_def
      List.map_filter_def elem_at_def upt_rec)

theorem window_stats_endpoint_delta_witness:
  "length (yVals reset_series) = length (xVals reset_series)
   \<and> length (eVals reset_series) = length (xVals reset_series)
   \<and> sorted (xVals reset_series) \<and> (0::int) div 1000 < 3600000 div 1000
   \<and> in_window (xVals reset_series) 0 3600 = [0, 1]
   \<and> window_values (yVals reset_series) [0, 1] = [100]
   \<and> window_values (eVals reset_series) [0, 1] = [5, 1]
   \<and> (\<exists>r. computeStatsLocal reset_series 0 3600000 = Some r \<and> count r = 1
          \<and> avgP r = Some 100 \<and> minP r = Some 100 \<and> maxP r = Some 100
          \<and> energyUsed r = Some (- 4))"
proof -
  have s: "sorted (xVals reset_series)" "length (yVals reset_series) = length (xVals reset_series)"
      "length (eVals reset_series) = length (xVals reset_series)"
    by (simp_all add: reset_series_def init_state_def)
  have d: "(0::int) div 1000 < 3600000 div 1000" by simp
  from window_stats_endpoint_delta[of reset_series 0 3600000 "[0, 1]" "[100]" "[5, 1]"] s reset_facts
  show ?thesis by simp
qed


text \<open>
  C1 as stated fails on a window that starts and ends within the same second, such as the
  1 ms wide range committed after a zero-width drag: the example sample at \<open>t = 0\<close> with
  its energy value lies inside the window \<open>[0, 1]\<close>, and no statistics are produced.
\<close>

theorem window_stats_subsecond_counterexample:
  "in_window (xVals (fetchReadings init_state example_readings)) (0 div 1000) (1 div 1000) = [0]
   \<and> window_values (eVals (fetchReadings init_state example_readings)) [0] = [1]
   \<and> computeStatsLocal (fetchReadings init_state example_readings) 0 1 = None"
  by (simp add: fetchReadings_series mapped_def usedDerived_def all_power_null_def
      example_readings_def in_window_def upt_rec window_values_def List.map_filter_def
      elem_at_def computeStatsLocal_def)

text \<open>
  The series that \<open>fetchReadings\<close> builds is index-aligned when the power comes from the
  readings. When the power is derived, \<open>xVals\<close> and \<open>yVals\<close> have one entry per derived point
  and \<open>eVals\<close> one per reading, so \<open>eVals\<close> is shifted against the time axis: over the window
  \<open>[1000, 3000]\<close> of the energy-only readings, whose samples carry 2, 4 and 3 kWh, the
  energy used comes out as \<open>4 - 1\<close>.
\<close>

lemma derived_series_shifted:
  "xVals (fetchReadings init_state energy_only_readings) = [1, 2, 3]
   \<and> eVals (fetchReadings init_state energy_only_readings) = [Some 1, Some 2, Some 4, Some 3]
   \<and> map_option energyUsed (computeStatsLocal (fetchReadings init_state energy_only_readings)
                                1000 3000) = Some (Some 3)"
proof -
  have m: "mapped energy_only_readings = [(1000, Some 3600000), (2000, Some 7200000), (3000, Some 0)]"
    by (simp add: mapped_def usedDerived_def all_power_null_def energy_only_readings_def
        derive_step_def)
  have x: "xVals (fetchReadings init_state energy_only_readings) = [1, 2, 3]"
    and y: "yVals (fetchReadings init_state energy_only_readings)
              = [Some 3600000, Some 7200000, Some 0]"
    and e: "eVals (fetchReadings init_state energy_only_readings) = [Some 1, Some 2, Some 4, Some 3]"
    by (simp_all add: fetchReadings_series m) (simp add: energy_only_readings_def)
  show ?thesis
    by (simp add: x y e computeStatsLocal_def Let_def scan_i0.simps scan_i1.simps ySlice_def
        List.map_filter_def elem_at_def)
qed

text \<open>
  C3, as amended. For an index-aligned, time-ordered series and a window whose end falls in
  a later second than its start and which contains a sample: when no non-null cumulative-energy sample
  lies inside the window, the energy used is the trapezoidal integral of power,
  \<open>sum((p[i]+p[i-1])/2 * (t[i]-t[i-1])) / 3600000\<close>, over the adjacent pairs of the window
  whose two power samples are non-null and whose timestamp advances; when no pair has a
  term the energy used is that empty sum, 0.
\<close>

theorem window_stats_trapezoid_fallback:
  "length (yVals st) = length (xVals st) \<and> length (eVals st) = length (xVals st)
     \<and> sorted (xVals st) \<and> startMs div 1000 < endMs div 1000
     \<and> w = in_window (xVals st) (startMs div 1000) (endMs div 1000) \<and> w \<noteq> []
     \<and> window_values (eVals st) w = []
   \<longrightarrow> (\<exists>r. computeStatsLocal st startMs endMs = Some r
            \<and> energyUsed r = Some (trapezoid_kwh (xVals st) (yVals st) w)
            \<and> (filter (computable (xVals st) (yVals st)) (zip w (tl w)) = []
                 \<longrightarrow> energyUsed r = Some 0))"
proof
  assume h: "length (yVals st) = length (xVals st) \<and> length (eVals st) = length (xVals st)
     \<and> sorted (xVals st) \<and> startMs div 1000 < endMs div 1000
     \<and> w = in_window (xVals st) (startMs div 1000) (endMs div 1000) \<and> w \<noteq> []
     \<and> window_values (eVals st) w = []"
  then have h1: "sorted (xVals st)" and h2: "startMs div 1000 < endMs div 1000"
    and h3: "w = in_window (xVals st) (startMs div 1000) (endMs div 1000)" and h4: "w \<noteq> []"
    and h5: "window_values (eVals st) w = []"
    by blast+
  from in_window_interval[OF h1] h3 obtain a b where ab: "w = [a..<b]" by blast
  have tk: "sum_list (map (trapezoid_term (xVals st) (yVals st)) (tl w)) / 3600000
              = trapezoid_kwh (xVals st) (yVals st) w"
    unfolding ab by (rule trapezoid_interval)
  have "computeStatsLocal st startMs endMs =
           Some \<lparr>count = length (window_values (yVals st) w),
                 avgP = (if window_values (yVals st) w = [] then None
                         else Some (sum_list (window_values (yVals st) w)
                                    / of_nat (length (window_values (yVals st) w)))),
                 maxP = (if window_values (yVals st) w = [] then None
                         else Some (Max (set (window_values (yVals st) w)))),
                 minP = (if window_values (yVals st) w = [] then None
                         else Some (Min (set (window_values (yVals st) w)))),
                 energyUsed = Some (trapezoid_kwh (xVals st) (yVals st) w),
                 cost = Some (trapezoid_kwh (xVals st) (yVals st) w * costPerKwh st)\<rparr>"
    by (rule computeStatsLocal_window[OF h1 h2 h3 h4 refl refl]) (simp add: h5 tk)
  moreover have "filter (computable (xVals st) (yVals st)) (zip w (tl w)) = []
                   \<Longrightarrow> trapezoid_kwh (xVals st) (yVals st) w = 0"
    by (simp add: trapezoid_kwh_def)
  ultimately show "\<exists>r. computeStatsLocal st startMs endMs = Some r
            \<and> energyUsed r = Some (trapezoid_kwh (xVals st) (yVals st) w)
            \<and> (filter (computable (xVals st) (yVals st)) (zip w (tl w)) = []
                 \<longrightarrow> energyUsed r = Some 0)"
    by simp
qed

lemma power_only_facts:
  "xVals (fetchReadings init_state power_only_readings) = [0, 3600]"
  "yVals (fetchReadings init_state power_only_readings) = [Some 100, Some 200]"
  "eVals (fetchReadings init_state power_only_readings) = [None, None]"
  by (simp_all add: fetchReadings_def power_only_readings_def init_state_def
        mapped_def usedDerived_def all_power_null_def updateChart_def Let_def)

theorem window_stats_trapezoid_fallback_witness:
  "length (yVals (fetchReadings init_state power_only_readings))
     = length (xVals (fetchReadings init_state power_only_readings))
   \<and> length (eVals (fetchReadings init_state power_only_readings))
     = length (xVals (fetchReadings init_state power_only_readings))
   \<and> sorted (xVals (fetchReadings init_state power_only_readings))
   \<and> (0::int) div 1000 < 3600000 div 1000
   \<and> in_window (xVals (fetchReadings init_state power_only_readings)) 0 3600 = [0, 1]
   \<and> window_values (eVals (fetchReadings init_state power_only_readings)) [0, 1] = []
   \<and> (\<exists>r. computeStatsLocal (fetchReadings init_state power_only_readings) 0 3600000 = Some r
          \<and> energyUsed r = Some (15 / 100))"
proof -
  have w: "in_window [0, 3600] 0 3600 = [0, 1]"
    by (simp add: in_window_def upt_rec)
  have e: "window_values [None, None] [0, 1] = []"
    by (simp add: window_values_def List.map_filter_def elem_at_def)
  have t: "trapezoid_kwh [0, 3600] [Some 100, Some 200] [0, 1] = 15 / 100"
    by (simp add: trapezoid_kwh_def computable_def pair_area_def elem_at_def)
  have hyp: "length (yVals (fetchReadings init_state power_only_readings))
       = length (xVals (fetchReadings init_state power_only_readings))
     \<and> length (eVals (fetchReadings init_state power_only_readings))
       = length (xVals (fetchReadings init_state power_only_readings))
     \<and> sorted (xVals (fetchReadings init_state power_only_readings))
     \<and> (0::int) div 1000 < 3600000 div 1000
     \<and> [0, 1] = in_window (xVals (fetchReadings init_state power_only_readings))
                    (0 div 1000) (3600000 div 1000)
     \<and> [0, 1] \<noteq> ([] :: nat list)
     \<and> window_values (eVals (fetchReadings init_state power_only_readings)) [0, 1] = []"
    using w e by (simp add: power_only_facts)
  from window_stats_trapezoid_fallback[of "fetchReadings init_state power_only_readings"
      0 3600000 "[0, 1]"] hyp
  obtain r where r: "computeStatsLocal (fetchReadings init_state power_only_readings) 0 3600000 = Some r"
      "energyUsed r = Some (trapezoid_kwh (xVals (fetchReadings init_state power_only_readings))
                              (yVals (fetchReadings init_state power_only_readings)) [0, 1])"
    by blast
  from r(2) have "energyUsed r = Some (15 / 100)" by (simp only: power_only_facts t)
  with r(1) hyp w e show ?thesis by (simp add: power_only_facts)
qed

text \<open>
  C3 as stated fails: with neither an energy sample nor a trapezoid term in the window, the
  energy used is 0, not null.
\<close>

theorem window_stats_null_counterexample:
  "window_values (eVals null_series) (in_window (xVals null_series) 0 3600) = []
   \<and> filter (computable (xVals null_series) (yVals null_series))
        (zip (in_window (xVals null_series) 0 3600) (tl (in_window (xVals null_series) 0 3600))) = []
   \<and> computeStatsLocal null_series 0 3600000
       = Some \<lparr>count = 0, avgP = None, maxP = None, minP = None, energyUsed = Some 0,
               cost = Some 0\<rparr>"
  by (simp add: null_series_def init_state_def in_window_def upt_rec window_values_def
      List.map_filter_def elem_at_def computable_def computeStatsLocal_def Let_def
      scan_i0.simps scan_i1.simps ySlice_def trapezoid_term_def)

text \<open>
  C4, as amended. For a time-ordered series, a window that contains no sample makes
  \<open>computeStatsLocal\<close> return early: no statistics are produced and the panel keeps what
  it showed before.
\<close>

theorem empty_window_no_result:
  "sorted (xVals st) \<and> in_window (xVals st) (startMs div 1000) (endMs div 1000) = []
   \<longrightarrow> computeStatsLocal st startMs endMs = None
       \<and> computeStatsLocal_display st startMs endMs = st"
proof
  assume h: "sorted (xVals st) \<and> in_window (xVals st) (startMs div 1000) (endMs div 1000) = []"
  define i0 where "i0 = scan_i0 (xVals st) (startMs div 1000) 0"
  define i1 where "i1 = scan_i1 (xVals st) (endMs div 1000) (int (length (xVals st)) - 1)"
  have "i1 < int i0"
  proof (rule ccontr)
    assume "\<not> i1 < int i0"
    then have le: "int i0 \<le> i1" by simp
    then have "[i0..<Suc (nat i1)] \<noteq> []" by simp
    with in_window_range[OF conjunct1[OF h] i0_def i1_def le] h
    show False by simp
  qed
  then have "computeStatsLocal st startMs endMs = None"
    unfolding computeStatsLocal_def Let_def i0_def[symmetric] i1_def[symmetric] by simp
  then show "computeStatsLocal st startMs endMs = None
       \<and> computeStatsLocal_display st startMs endMs = st"
    by (simp add: computeStatsLocal_display_def)
qed

lemma example_shown_eq:
  "example_shown = (fetchReadings init_state example_readings)
     \<lparr>shown := Some \<lparr>count = 2, avgP = Some 150, maxP = Some 200, minP = Some 100,
             energyUsed = Some (2 / 10), cost = Some (2 / 10 * default_costPerKwh)\<rparr>,
      statusWindow := ''range''\<rparr>"
  by (simp add: example_shown_def computeStatsLocal_display_def computeStatsLocal_def fetchReadings_def example_readings_def init_state_def
        mapped_def usedDerived_def all_power_null_def updateChart_def ySlice_def
        List.map_filter_def elem_at_def Let_def scan_i0.simps scan_i1.simps)

lemma example_shown_xVals: "xVals example_shown = [0, 3600]"
  by (simp add: example_shown_eq) (simp add: fetchReadings_def example_readings_def init_state_def
        mapped_def usedDerived_def all_power_null_def updateChart_def Let_def)

theorem empty_window_no_result_witness:
  "sorted (xVals example_shown) \<and> in_window (xVals example_shown) (7200000 div 1000) (9000000 div 1000) = []
   \<and> computeStatsLocal example_shown 7200000 9000000 = None
   \<and> computeStatsLocal_display example_shown 7200000 9000000 = example_shown"
proof -
  have w: "in_window [0, 3600] 7200 9000 = []" by (simp add: in_window_def upt_rec)
  from empty_window_no_result[of example_shown 7200000 9000000] w
  show ?thesis by (simp add: example_shown_xVals)
qed

text \<open>
  C4 as stated fails: on a window with no sample the function produces no result, and the
  panel still shows the count 2 of the previous selection rather than count 0 and nulls.
\<close>

theorem empty_window_counterexample:
  "in_window (xVals example_shown) (3601000 div 1000) (7200000 div 1000) = []
   \<and> computeStatsLocal example_shown 3601000 7200000 = None
   \<and> shown (computeStatsLocal_display example_shown 3601000 7200000)
       = Some \<lparr>count = 2, avgP = Some 150, maxP = Some 200, minP = Some 100,
               energyUsed = Some (2 / 10), cost = Some (2 / 10 * default_costPerKwh)\<rparr>"
proof -
  have w: "in_window [0, 3600] 3601 7200 = []" by (simp add: in_window_def upt_rec)
  have n: "computeStatsLocal example_shown 3601000 7200000 = None"
    by (simp add: computeStatsLocal_def example_shown_xVals Let_def scan_i0.simps scan_i1.simps)
  show ?thesis
    using w n by (simp add: example_shown_xVals computeStatsLocal_display_def) (simp add: example_shown_eq)
qed


section \<open>Claims about the derived power series\<close>

lemma derive_step_valid:
  "derive_step a b = (if valid_pair (a, b) then [(row_t b, Some (derived_power (a, b)))] else [])"
  by (auto simp: derive_step_def valid_pair_def derived_power_def Let_def split: option.splits)

lemma derived_series_eq: "derived rows = derived_series rows"
  by (induction rows rule: derived.induct) (simp_all add: derived_series_def derive_step_valid)

text \<open>
  C2, as amended. For every sequence of readings in which every reading has a null power
  and at least one adjacent pair \<open>(a, b)\<close> has both energies non-null and
  \<open>b.t > a.t\<close>, the series is rebuilt from exactly those pairs as
  \<open>max(0, (b.e - a.e) * 3.6e9 / (b.t - a.t))\<close> at the later timestamp of each pair; the other
  pairs produce no point, so when all pairs are valid the derived series has length
  \<open>n - 1\<close>.
\<close>

theorem derived_power_series:
  "all_power_null rows \<and> filter valid_pair (zip rows (tl rows)) \<noteq> []
   \<longrightarrow> data (fetchReadings st rows) = derived_series rows
     \<and> xVals (fetchReadings st rows) = map (\<lambda>pt. fst pt div 1000) (derived_series rows)
     \<and> yVals (fetchReadings st rows) = map snd (derived_series rows)
     \<and> (list_all valid_pair (zip rows (tl rows))
          \<longrightarrow> length (yVals (fetchReadings st rows)) = length rows - 1)"
proof
  assume h: "all_power_null rows \<and> filter valid_pair (zip rows (tl rows)) \<noteq> []"
  then have "derived_series rows \<noteq> []" by (simp add: derived_series_def)
  with h have m: "mapped rows = derived_series rows"
    by (simp add: mapped_def usedDerived_def derived_series_eq)
  have "length (derived_series rows) = length rows - 1"
    if "list_all valid_pair (zip rows (tl rows))"
  proof -
    from that have "filter valid_pair (zip rows (tl rows)) = zip rows (tl rows)"
      by (simp add: list_all_iff)
    then show ?thesis by (simp add: derived_series_def)
  qed
  then show "data (fetchReadings st rows) = derived_series rows
     \<and> xVals (fetchReadings st rows) = map (\<lambda>pt. fst pt div 1000) (derived_series rows)
     \<and> yVals (fetchReadings st rows) = map snd (derived_series rows)
     \<and> (list_all valid_pair (zip rows (tl rows))
          \<longrightarrow> length (yVals (fetchReadings st rows)) = length rows - 1)"
    by (simp add: fetchReadings_series m)
qed

lemma energy_only_facts:
  "all_power_null energy_only_readings"
  "filter valid_pair (zip energy_only_readings (tl energy_only_readings))
     = zip energy_only_readings (tl energy_only_readings)"
  "derived_series energy_only_readings = [(1000, Some 3600000), (2000, Some 7200000), (3000, Some 0)]"
  by (simp_all add: energy_only_readings_def all_power_null_def valid_pair_def
      derived_series_def derived_power_def)

theorem derived_power_series_witness:
  "all_power_null energy_only_readings
   \<and> list_all valid_pair (zip energy_only_readings (tl energy_only_readings))
   \<and> xVals (fetchReadings init_state energy_only_readings) = [1, 2, 3]
   \<and> yVals (fetchReadings init_state energy_only_readings) = [Some 3600000, Some 7200000, Some 0]
   \<and> length (yVals (fetchReadings init_state energy_only_readings)) = length energy_only_readings - 1"
proof -
  have v: "list_all valid_pair (zip energy_only_readings (tl energy_only_readings))"
    by (simp add: energy_only_readings_def valid_pair_def)
  have ne: "filter valid_pair (zip energy_only_readings (tl energy_only_readings)) \<noteq> []"
    by (simp add: energy_only_readings_def valid_pair_def)
  have l: "length energy_only_readings = 4" by (simp add: energy_only_readings_def)
  from derived_power_series[of energy_only_readings init_state] energy_only_facts(1) ne v
  show ?thesis by (simp add: energy_only_facts(3) l)
qed

text \<open>
  C2 as stated fails: two of these three power-less readings carry cumulative energy, no
  adjacent pair is valid, and the series is not rebuilt (it would be empty) but keeps the
  three raw null samples.
\<close>

theorem derived_power_series_counterexample:
  "all_power_null gap_readings
   \<and> 2 \<le> length (filter (\<lambda>r. row_e r \<noteq> None) gap_readings)
   \<and> derived_series gap_readings = []
   \<and> yVals (fetchReadings init_state gap_readings) = [None, None, None]
   \<and> xVals (fetchReadings init_state gap_readings) = [0, 1, 2]"
  by (simp add: gap_readings_def all_power_null_def derived_series_def valid_pair_def
      fetchReadings_series mapped_def usedDerived_def derive_step_def)

section \<open>Claims about the range selection\<close>

lemma clamp_selection_data:
  assumes "xVals st \<noteq> []"
  shows "clamp_selection st a b True =
     (let lo = hd (xVals st) * 1000; hi = last (xVals st) * 1000;
          s = max lo (min a hi); e = max lo (min b hi)
      in (s, if e \<le> s then min hi (s + 1) else e))"
  using assms by (simp add: clamp_selection_def)

lemma reset_series_fields:
  "xVals (resetPointerSelectionState st) = xVals st"
  "selection (resetPointerSelectionState st) = selection st"
  by (simp_all add: resetPointerSelectionState_def)

lemma applySelectionRange_selection:
  "selection (applySelectionRange st a b lbl c) =
     (case clamp_selection st a b c of (s, e) \<Rightarrow> if e \<le> s then selection st else Some (s, e))"
  by (simp add: applySelectionRange_def computeStatsLocal_display_series split: prod.splits)

text \<open>
  C5, as amended. Let a drag end with raw endpoints \<open>a\<close> (where it started) and \<open>b\<close>
  (where it ended) on a loaded series whose time span is \<open>[lo, hi]\<close>, let \<open>s\<close> be
  \<open>min(a, b)\<close> clamped to the span and \<open>e\<close> be \<open>max(a, b)\<close>, widened by one millisecond
  when \<open>a = b\<close>, clamped to the span. If \<open>s < e\<close> the committed range is \<open>[s, e]\<close>; if the
  two bounds coincide below \<open>hi\<close> the committed range is the 1 ms wide \<open>[s, s + 1]\<close>; if
  they coincide at \<open>hi\<close> nothing is committed and the selection stays as it was. Every
  range so committed, and every range that \<open>applySelectionRange\<close> commits with clamping for
  any caller, satisfies \<open>lo \<le> startMs < endMs \<le> hi\<close>.
\<close>

theorem drag_end_commit:
  "xVals st \<noteq> [] \<and> hd (xVals st) \<le> last (xVals st)
     \<and> ps_startMs (pointerSelect st) = Some a
     \<and> pxToMs u (case px of Some x \<Rightarrow> Some x | None \<Rightarrow> ps_startPx (pointerSelect st)) = Some b
     \<and> lo = hd (xVals st) * 1000 \<and> hi = last (xVals st) * 1000
     \<and> s = max lo (min (min a b) hi)
     \<and> e = max lo (min (if a = b then a + 1 else max a b) hi)
   \<longrightarrow> selection (finalizePointerSelection u st px)
         = (if s < e then Some (s, e) else if s < hi then Some (s, s + 1) else selection st)
     \<and> (s < e \<or> s < hi
          \<longrightarrow> (\<exists>x y. selection (finalizePointerSelection u st px) = Some (x, y)
                     \<and> lo \<le> x \<and> x < y \<and> y \<le> hi))
     \<and> (selection (applySelectionRange st a' b' lbl True) = selection st
          \<or> (\<exists>x y. selection (applySelectionRange st a' b' lbl True) = Some (x, y)
                     \<and> lo \<le> x \<and> x < y \<and> y \<le> hi))"
proof
  assume h: "xVals st \<noteq> [] \<and> hd (xVals st) \<le> last (xVals st)
     \<and> ps_startMs (pointerSelect st) = Some a
     \<and> pxToMs u (case px of Some x \<Rightarrow> Some x | None \<Rightarrow> ps_startPx (pointerSelect st)) = Some b
     \<and> lo = hd (xVals st) * 1000 \<and> hi = last (xVals st) * 1000
     \<and> s = max lo (min (min a b) hi)
     \<and> e = max lo (min (if a = b then a + 1 else max a b) hi)"
  then have ne: "xVals (resetPointerSelectionState st) \<noteq> []" by (simp add: reset_series_fields)
  have lohi: "lo \<le> hi" using h by simp
  have sa: "ps_startMs (pointerSelect st) = Some a"
    and eb: "pxToMs u (case px of Some x \<Rightarrow> Some x | None \<Rightarrow> ps_startPx (pointerSelect st)) = Some b"
    and lo_eq: "lo = hd (xVals st) * 1000" and hi_eq: "hi = last (xVals st) * 1000"
    and s_eq: "s = max lo (min (min a b) hi)"
    and e_eq: "e = max lo (min (if a = b then a + 1 else max a b) hi)"
    using h by blast+
  have to: "(if max a b = min a b then min a b + 1 else max a b) = (if a = b then a + 1 else max a b)"
    by (cases "a = b") auto
  have fin: "finalizePointerSelection u st px
        = applySelectionRange (resetPointerSelectionState st) (min a b)
            (if a = b then a + 1 else max a b) ''range'' True"
    by (simp add: finalizePointerSelection_def Let_def sa eb to)
  have cl: "clamp_selection (resetPointerSelectionState st) (min a b)
              (if a = b then a + 1 else max a b) True
            = (s, if e \<le> s then min hi (s + 1) else e)"
    by (simp only: clamp_selection_data[OF ne] reset_series_fields Let_def
        lo_eq[symmetric] hi_eq[symmetric] s_eq[symmetric] e_eq[symmetric])
  have sh: "s \<le> hi" using s_eq lohi by simp
  have sel: "selection (finalizePointerSelection u st px)
         = (if s < e then Some (s, e) else if s < hi then Some (s, s + 1) else selection st)"
  proof (cases "s < e")
    case True
    then show ?thesis by (simp add: fin applySelectionRange_selection cl reset_series_fields)
  next
    case False
    then show ?thesis using sh
      by (cases "s < hi") (simp_all add: fin applySelectionRange_selection cl reset_series_fields)
  qed
  have bounds: "lo \<le> s \<and> s \<le> hi \<and> e \<le> hi" using s_eq e_eq lohi by simp
  have ne0: "xVals st \<noteq> []" using h by blast
  define s' where "s' = max lo (min a' hi)"
  define e0 where "e0 = max lo (min b' hi)"
  define e' where "e' = (if e0 \<le> s' then min hi (s' + 1) else e0)"
  have cl': "clamp_selection st a' b' True = (s', e')"
    by (simp only: clamp_selection_data[OF ne0] Let_def lo_eq[symmetric] hi_eq[symmetric]
        s'_def[symmetric] e0_def[symmetric] e'_def[symmetric])
  have b': "lo \<le> s'" "e' \<le> hi"
    using lohi by (simp_all add: s'_def e0_def e'_def)
  have gen: "selection (applySelectionRange st a' b' lbl True) = selection st
          \<or> (\<exists>x y. selection (applySelectionRange st a' b' lbl True) = Some (x, y)
                     \<and> lo \<le> x \<and> x < y \<and> y \<le> hi)"
    using b' by (cases "e' \<le> s'") (simp_all add: applySelectionRange_selection cl')
  show "selection (finalizePointerSelection u st px)
         = (if s < e then Some (s, e) else if s < hi then Some (s, s + 1) else selection st)
     \<and> (s < e \<or> s < hi
          \<longrightarrow> (\<exists>x y. selection (finalizePointerSelection u st px) = Some (x, y)
                     \<and> lo \<le> x \<and> x < y \<and> y \<le> hi))
     \<and> (selection (applySelectionRange st a' b' lbl True) = selection st
          \<or> (\<exists>x y. selection (applySelectionRange st a' b' lbl True) = Some (x, y)
                     \<and> lo \<le> x \<and> x < y \<and> y \<le> hi))"
    using sel bounds gen by auto
qed


lemma dragging_from_fields:
  "xVals (dragging_from x) = [0, 3600]"
  "selection (dragging_from x) = None"
  "ps_startPx (pointerSelect (dragging_from x)) = Some x"
  "ps_startMs (pointerSelect (dragging_from x)) = Some \<lfloor>x * 3600 / 800 * 1000\<rfloor>"
  by (simp_all add: dragging_from_def fetchReadings_series mapped_def usedDerived_def
      all_power_null_def example_readings_def pxToMs_def hour_chart_def)
     (simp_all add: fetchReadings_def updateChart_def init_state_def Let_def)

theorem drag_end_commit_witness:
  "xVals (dragging_from 400) \<noteq> [] \<and> hd (xVals (dragging_from 400)) \<le> last (xVals (dragging_from 400))
   \<and> ps_startMs (pointerSelect (dragging_from 400)) = Some 1800000
   \<and> pxToMs hour_chart (ps_startPx (pointerSelect (dragging_from 400))) = Some 1800000
   \<and> selection (finalizePointerSelection hour_chart (dragging_from 400) None)
        = Some (1800000, 1800001)"
proof -
  have p: "pxToMs hour_chart (Some 400) = Some 1800000"
    by (simp add: pxToMs_def hour_chart_def)
  from drag_end_commit[of "dragging_from 400" 1800000 hour_chart None 1800000 0 3600000
      1800000 1800001] p
  show ?thesis by (simp add: dragging_from_fields)
qed

text \<open>
  C5 as stated fails for a zero-width drag at the right edge of the plot: both endpoints
  resolve to the last instant of the series, and no range is committed at all.
\<close>

theorem drag_end_edge_counterexample:
  "ps_startMs (pointerSelect (dragging_from 800)) = Some 3600000
   \<and> pxToMs hour_chart (Some 800) = Some 3600000
   \<and> last (xVals (dragging_from 800)) * 1000 = 3600000
   \<and> selection (dragging_from 800) = None
   \<and> selection (finalizePointerSelection hour_chart (dragging_from 800) (Some 800)) = None"
proof -
  have p: "pxToMs hour_chart (Some 800) = Some 3600000"
    by (simp add: pxToMs_def hour_chart_def)
  have "selection (finalizePointerSelection hour_chart (dragging_from 800) (Some 800)) = None"
    by (simp add: finalizePointerSelection_def Let_def p dragging_from_fields
        applySelectionRange_selection clamp_selection_def reset_series_fields)
  then show ?thesis by (simp add: p dragging_from_fields)
qed


section \<open>Claims about the period comparison\<close>

lemma renderDiff_boxes:
  "boxes (renderDiff c statsA statsB rangeA rangeB)
     = map2 (\<lambda>A B. (absoluteDiff A B, percentDiff A B))
         (period_metrics c statsA rangeA) (period_metrics c statsB rangeB)"
  by (auto simp: boxes_def renderDiff_def period_metrics_def absoluteDiff_def percentDiff_def Let_def
      left_diff_distrib
      split: option.splits)

lemma period_metrics_five:
  "\<exists>m0 m1 m2 m3 m4. period_metrics c stats rng = [m0, m1, m2, m3, m4]"
  by (simp add: period_metrics_def Let_def)

lemma absoluteDiff_swap: "absoluteDiff B A = map_option uminus (absoluteDiff A B)"
  by (simp add: absoluteDiff_def split: option.splits)

lemma percentDiff_sign:
  assumes "0 < x * y"
  shows "\<exists>v v'. percentDiff (Some x) (Some y) = Some v \<and> percentDiff (Some y) (Some x) = Some v'
           \<and> sgn v' = - sgn v"
proof -
  from assms have nz: "x \<noteq> 0" "y \<noteq> 0" by auto
  from assms have sg: "sgn x = sgn y"
    by (cases "0 < x") (simp_all add: zero_less_mult_iff)
  have h100: "sgn (100::rat) = 1" by simp
  have a: "sgn ((x - y) / y * 100) = sgn (x - y) / sgn y"
    by (simp only: sgn_mult sgn_divide h100 mult_1_right)
  have b: "sgn ((y - x) / x * 100) = sgn (y - x) / sgn x"
    by (simp only: sgn_mult sgn_divide h100 mult_1_right)
  have c: "sgn (y - x) = - sgn (x - y)" by (simp add: sgn_if)
  have "sgn ((x - y) / y * 100) = - sgn ((y - x) / x * 100)"
    by (simp only: a b c sg minus_divide_left minus_minus)
  then show ?thesis using nz by (simp add: percentDiff_def)
qed

text \<open>
  C6, as amended. For every pair of period statistics the comparison computes, for each of
  energy, daily average energy, average power, cost and cost per day, \<open>diff = B - A\<close> and
  \<open>pctDiff = diff / A * 100\<close> when both values are present and the baseline \<open>A\<close> is
  nonzero, and \<open>pctDiff = null\<close> whenever the baseline is 0 or missing. Swapping the two
  periods negates every absolute difference, and it inverts the sign of the percentage
  difference of a metric whose two values are nonzero and of the same sign.
\<close>

theorem comparison_diffs:
  "boxes (renderDiff c statsA statsB rangeA rangeB)
     = map2 (\<lambda>A B. (absoluteDiff A B, percentDiff A B))
         (period_metrics c statsA rangeA) (period_metrics c statsB rangeB)
   \<and> (A = Some x \<and> B = Some y
        \<longrightarrow> absoluteDiff A B = Some (y - x)
          \<and> percentDiff A B = (if x \<noteq> 0 then Some ((y - x) / x * 100) else None))
   \<and> (A = None \<or> A = Some 0 \<longrightarrow> percentDiff A B = None)
   \<and> map fst (boxes (renderDiff c statsB statsA rangeB rangeA))
        = map (\<lambda>d. map_option uminus (fst d)) (boxes (renderDiff c statsA statsB rangeA rangeB))
   \<and> (i < 5 \<and> period_metrics c statsA rangeA ! i = Some x
         \<and> period_metrics c statsB rangeB ! i = Some y \<and> 0 < x * y
        \<longrightarrow> (\<exists>v v'. snd (boxes (renderDiff c statsA statsB rangeA rangeB) ! i) = Some v
                  \<and> snd (boxes (renderDiff c statsB statsA rangeB rangeA) ! i) = Some v'
                  \<and> sgn v' = - sgn v))"
proof (intro conjI impI)
  show "boxes (renderDiff c statsA statsB rangeA rangeB)
     = map2 (\<lambda>A B. (absoluteDiff A B, percentDiff A B))
         (period_metrics c statsA rangeA) (period_metrics c statsB rangeB)"
    by (rule renderDiff_boxes)
next
  assume "A = Some x \<and> B = Some y"
  then show "absoluteDiff A B = Some (y - x)" by (simp add: absoluteDiff_def)
next
  assume "A = Some x \<and> B = Some y"
  then show "percentDiff A B = (if x \<noteq> 0 then Some ((y - x) / x * 100) else None)"
    by (simp add: percentDiff_def)
next
  assume "A = None \<or> A = Some 0"
  then show "percentDiff A B = None" by (auto simp: percentDiff_def split: option.splits)
next
  obtain a0 a1 a2 a3 a4 where ma: "period_metrics c statsA rangeA = [a0, a1, a2, a3, a4]"
    using period_metrics_five by blast
  obtain b0 b1 b2 b3 b4 where mb: "period_metrics c statsB rangeB = [b0, b1, b2, b3, b4]"
    using period_metrics_five by blast
  show "map fst (boxes (renderDiff c statsB statsA rangeB rangeA))
        = map (\<lambda>d. map_option uminus (fst d)) (boxes (renderDiff c statsA statsB rangeA rangeB))"
    by (simp add: renderDiff_boxes ma mb absoluteDiff_swap[symmetric])
next
  assume h: "i < 5 \<and> period_metrics c statsA rangeA ! i = Some x
         \<and> period_metrics c statsB rangeB ! i = Some y \<and> 0 < x * y"
  obtain a0 a1 a2 a3 a4 where ma: "period_metrics c statsA rangeA = [a0, a1, a2, a3, a4]"
    using period_metrics_five by blast
  obtain b0 b1 b2 b3 b4 where mb: "period_metrics c statsB rangeB = [b0, b1, b2, b3, b4]"
    using period_metrics_five by blast
  have la: "length (period_metrics c statsA rangeA) = 5" and lb: "length (period_metrics c statsB rangeB) = 5"
    by (simp_all add: ma mb)
  from h have i: "i < 5" by simp
  have ab: "snd (boxes (renderDiff c statsA statsB rangeA rangeB) ! i) = percentDiff (Some x) (Some y)"
    using h by (simp add: renderDiff_boxes la lb)
  have ba: "snd (boxes (renderDiff c statsB statsA rangeB rangeA) ! i) = percentDiff (Some y) (Some x)"
    using h by (simp add: renderDiff_boxes la lb)
  from h have "0 < x * y" by simp
  from percentDiff_sign[OF this] ab ba
  show "\<exists>v v'. snd (boxes (renderDiff c statsA statsB rangeA rangeB) ! i) = Some v
                  \<and> snd (boxes (renderDiff c statsB statsA rangeB rangeA) ! i) = Some v'
                  \<and> sgn v' = - sgn v"
    by simp
qed


lemma daysInRange_div:
  "daysInRange (Some r) = Some (- ((range_startMs r - range_endMs r) div 86400000))"
proof -
  have "\<lceil>(of_int (range_endMs r - range_startMs r) :: rat) / of_int 86400000\<rceil>
          = - (- (range_endMs r - range_startMs r) div 86400000)"
    by (metis ceiling_def floor_divide_of_int_eq minus_divide_left of_int_minus)
  then show ?thesis by (simp add: daysInRange_def)
qed

lemma week_metrics:
  "period_metrics c (energy_stats k) (days_range 7)
     = [Some k, Some (k / 7), None, Some (k * c), Some (k * c / 7)]"
  by (simp add: period_metrics_def energy_stats_def days_range_def daysInRange_div Let_def)

theorem comparison_diffs_witness:
  "period_metrics default_costPerKwh (energy_stats 10) (days_range 7) ! 0 = Some 10
   \<and> period_metrics default_costPerKwh (energy_stats 8) (days_range 7) ! 0 = Some 8
   \<and> (0::rat) < 10 * 8
   \<and> absoluteDiff (Some 10) (Some 8) = Some (- 2)
   \<and> percentDiff (Some 10) (Some 8) = Some (- 20)
   \<and> percentDiff (Some 0) (Some 8) = None
   \<and> diff_energy (renderDiff default_costPerKwh (energy_stats 10) (energy_stats 8)
                     (days_range 7) (days_range 7)) = (Some (- 2), Some (- 20))
   \<and> diff_energy (renderDiff default_costPerKwh (energy_stats 8) (energy_stats 10)
                     (days_range 7) (days_range 7)) = (Some 2, Some 25)
   \<and> (\<exists>v v'. snd (boxes (renderDiff default_costPerKwh (energy_stats 10) (energy_stats 8)
                                (days_range 7) (days_range 7)) ! 0) = Some v
            \<and> snd (boxes (renderDiff default_costPerKwh (energy_stats 8) (energy_stats 10)
                                (days_range 7) (days_range 7)) ! 0) = Some v'
            \<and> sgn v' = - sgn v)"
proof -
  have m: "period_metrics default_costPerKwh (energy_stats 10) (days_range 7) ! 0 = Some 10"
      "period_metrics default_costPerKwh (energy_stats 8) (days_range 7) ! 0 = Some 8"
    by (simp_all add: week_metrics)
  note th = comparison_diffs[of default_costPerKwh "energy_stats 10" "energy_stats 8" "days_range 7"
      "days_range 7" "Some 10" 10 "Some 8" 8 0]
  from th
  have b: "boxes (renderDiff default_costPerKwh (energy_stats 10) (energy_stats 8)
                     (days_range 7) (days_range 7))
            = map2 (\<lambda>A B. (absoluteDiff A B, percentDiff A B))
                (period_metrics default_costPerKwh (energy_stats 10) (days_range 7))
                (period_metrics default_costPerKwh (energy_stats 8) (days_range 7))"
    and d: "absoluteDiff (Some 10) (Some 8) = Some (8 - 10)"
           "percentDiff (Some 10) (Some 8) = Some ((8 - 10) / 10 * 100)"
    by simp_all
  have hyp: "(0::nat) < 5
      \<and> period_metrics default_costPerKwh (energy_stats 10) (days_range 7) ! 0 = Some 10
      \<and> period_metrics default_costPerKwh (energy_stats 8) (days_range 7) ! 0 = Some 8
      \<and> (0::rat) < 10 * 8"
    using m by simp
  from th hyp
  have sg: "\<exists>v v'. snd (boxes (renderDiff default_costPerKwh (energy_stats 10) (energy_stats 8)
                                (days_range 7) (days_range 7)) ! 0) = Some v
            \<and> snd (boxes (renderDiff default_costPerKwh (energy_stats 8) (energy_stats 10)
                                (days_range 7) (days_range 7)) ! 0) = Some v'
            \<and> sgn v' = - sgn v"
    by blast
  from comparison_diffs[of default_costPerKwh "energy_stats 10" "energy_stats 8" "days_range 7"
      "days_range 7" "Some 0" 10 "Some 8" 8 0]
  have z: "percentDiff (Some 0) (Some 8) = None" by simp
  from comparison_diffs[of default_costPerKwh "energy_stats 8" "energy_stats 10" "days_range 7"
      "days_range 7" "Some 8" 8 "Some 10" 10 0]
  have b': "boxes (renderDiff default_costPerKwh (energy_stats 8) (energy_stats 10)
                     (days_range 7) (days_range 7))
            = map2 (\<lambda>A B. (absoluteDiff A B, percentDiff A B))
                (period_metrics default_costPerKwh (energy_stats 8) (days_range 7))
                (period_metrics default_costPerKwh (energy_stats 10) (days_range 7))"
    and d': "absoluteDiff (Some 8) (Some 10) = Some (10 - 8)"
           "percentDiff (Some 8) (Some 10) = Some ((10 - 8) / 8 * 100)"
    by simp_all
  have e1: "diff_energy (renderDiff default_costPerKwh (energy_stats 10) (energy_stats 8)
                     (days_range 7) (days_range 7)) = (Some (- 2), Some (- 20))"
    using arg_cong[OF b, of hd] d by (simp add: boxes_def week_metrics)
  have e2: "diff_energy (renderDiff default_costPerKwh (energy_stats 8) (energy_stats 10)
                     (days_range 7) (days_range 7)) = (Some 2, Some 25)"
    using arg_cong[OF b', of hd] d' by (simp add: boxes_def week_metrics)
  show ?thesis using m d z e1 e2 sg by simp
qed

text \<open>
  C6 as stated fails when the two energies have opposite signs: both baselines are nonzero,
  yet the percentage difference is negative in both directions.
\<close>

theorem comparison_sign_counterexample:
  "diff_energy (renderDiff default_costPerKwh (energy_stats 10) (energy_stats (- 5))
                  (days_range 7) (days_range 7)) = (Some (- 15), Some (- 150))
   \<and> diff_energy (renderDiff default_costPerKwh (energy_stats (- 5)) (energy_stats 10)
                  (days_range 7) (days_range 7)) = (Some 15, Some (- 300))"
  by (simp add: renderDiff_def energy_stats_def days_range_def daysInRange_div Let_def)


section \<open>Claims about the comparison run and the range calendars\<close>

lemma getEndOfTodayMs_eq:
  "getEndOfTodayMs tz now = ((now + tz) div 86400000 + 1) * 86400000 - tz - 1"
  by (simp add: getEndOfTodayMs_def date_of_ms_def date_at_def getTime_def Let_def)

lemma end_of_today:
  "now \<le> getEndOfTodayMs tz now"
  "date_of_ms tz (getEndOfTodayMs tz now)
     = \<lparr>local_day = local_day (date_of_ms tz now), ms_of_day = 86399999\<rparr>"
proof -
  define q where "q = (now + tz) div 86400000"
  define r where "r = (now + tz) mod 86400000"
  have nq: "now + tz = q * 86400000 + r" by (simp add: q_def r_def)
  have r: "0 \<le> r" "r < 86400000" by (simp_all add: r_def)
  have e: "getEndOfTodayMs tz now = (q + 1) * 86400000 - tz - 1"
    by (simp add: getEndOfTodayMs_eq q_def)
  show "now \<le> getEndOfTodayMs tz now" using nq r e by simp
  have "getEndOfTodayMs tz now + tz = q * 86400000 + 86399999" using e by simp
  then have "(getEndOfTodayMs tz now + tz) div 86400000 = q"
    and "(getEndOfTodayMs tz now + tz) mod 86400000 = 86399999"
    by simp_all
  then show "date_of_ms tz (getEndOfTodayMs tz now)
     = \<lparr>local_day = local_day (date_of_ms tz now), ms_of_day = 86399999\<rparr>"
    by (simp add: date_of_ms_def q_def)
qed

text \<open>
  C8, as amended. For every comparison run, each period's range is trimmed before fetching
  so that the end of the range actually requested is the smaller of the picked end and the
  last millisecond (23:59:59.999) of the current local day; it never exceeds the end of
  today, which is not before the current moment.
\<close>

theorem compare_end_within_today:
  "Option.bind calendarA (getRange tz) = Some rangeA
     \<and> Option.bind calendarB (getRange tz) = Some rangeB
     \<and> endOfToday = getEndOfTodayMs tz now
   \<longrightarrow> runCompare tz now calendarA calendarB
         = Some (\<lparr>range_startMs = range_startMs rangeA,
                   range_endMs = min (range_endMs rangeA) endOfToday\<rparr>,
                 \<lparr>range_startMs = range_startMs rangeB,
                   range_endMs = min (range_endMs rangeB) endOfToday\<rparr>)
     \<and> min (range_endMs rangeA) endOfToday \<le> endOfToday
     \<and> min (range_endMs rangeB) endOfToday \<le> endOfToday
     \<and> now \<le> endOfToday
     \<and> date_of_ms tz endOfToday
          = \<lparr>local_day = local_day (date_of_ms tz now), ms_of_day = 86399999\<rparr>"
  using end_of_today[where tz = tz and now = now]
  by (simp add: runCompare_def trimRangeToToday_def Let_def)

lemma picked_days_range:
  "getRange 0 (picked_days 0 5) = Some \<lparr>range_startMs = 0, range_endMs = 518399999\<rparr>"
  "getRange 0 (picked_days 0 0) = Some \<lparr>range_startMs = 0, range_endMs = 86399999\<rparr>"
  by (simp_all add: picked_days_def click_day_def createRangeCalendar_def getRange_def
      date_at_def getTime_def Let_def)

theorem compare_end_within_today_witness:
  "Option.bind (Some (picked_days 0 5)) (getRange 0)
     = Some \<lparr>range_startMs = 0, range_endMs = 518399999\<rparr>
   \<and> Option.bind (Some (picked_days 0 0)) (getRange 0)
     = Some \<lparr>range_startMs = 0, range_endMs = 86399999\<rparr>
   \<and> getEndOfTodayMs 0 43200000 = 86399999
   \<and> runCompare 0 43200000 (Some (picked_days 0 5)) (Some (picked_days 0 0))
     = Some (\<lparr>range_startMs = 0, range_endMs = 86399999\<rparr>,
             \<lparr>range_startMs = 0, range_endMs = 86399999\<rparr>)"
proof -
  have e: "getEndOfTodayMs 0 43200000 = 86399999" by (simp add: getEndOfTodayMs_eq)
  from compare_end_within_today[of "Some (picked_days 0 5)" 0
      "\<lparr>range_startMs = 0, range_endMs = 518399999\<rparr>" "Some (picked_days 0 0)"
      "\<lparr>range_startMs = 0, range_endMs = 86399999\<rparr>" 86399999 43200000] e
  show ?thesis by (simp add: picked_days_range)
qed

text \<open>
  C8 as stated fails: at noon, a comparison of today with today requests ranges that end at
  23:59:59.999 today, after the current moment.
\<close>

theorem compare_end_after_now_counterexample:
  "runCompare 0 43200000 (Some (picked_days 0 0)) (Some (picked_days 0 0))
     = Some (\<lparr>range_startMs = 0, range_endMs = 86399999\<rparr>,
             \<lparr>range_startMs = 0, range_endMs = 86399999\<rparr>)
   \<and> (43200000 :: int) < range_endMs \<lparr>range_startMs = 0, range_endMs = 86399999\<rparr>"
  by (simp add: runCompare_def picked_days_range trimRangeToToday_def getEndOfTodayMs_eq)

text \<open>
  C10. With fewer than two days picked \<open>getRange\<close> returns null. With a start day and an
  end day it returns \<open>startMs\<close> at local midnight (00:00:00.000) of the start day and
  \<open>endMs\<close> at 23:59:59.999 of the end day. Once a start day and then an end day have been
  picked by clicks, the start day is the earlier and the end day the later of the two,
  whichever was picked first, so \<open>endMs > startMs\<close> and the range spans whole calendar
  days.
\<close>

theorem picked_range_whole_days:
  "(startDate cal = None \<or> endDate cal = None \<longrightarrow> getRange tz cal = None)
   \<and> (startDate cal = Some sd \<and> endDate cal = Some ed \<and> local_day sd \<le> local_day ed
        \<longrightarrow> getRange tz cal
              = Some \<lparr>range_startMs = getTime tz (date_at (local_day sd) 0 0 0 0),
                       range_endMs = getTime tz (date_at (local_day ed) 23 59 59 999)\<rparr>
          \<and> getTime tz (date_at (local_day sd) 0 0 0 0)
               < getTime tz (date_at (local_day ed) 23 59 59 999))
   \<and> (step cal = ''start''
        \<longrightarrow> getRange tz (click_day tz cal d1) = None
          \<and> getRange tz (click_day tz (click_day tz cal d1) d2)
               = Some \<lparr>range_startMs = getTime tz (date_at (min d1 d2) 0 0 0 0),
                        range_endMs = getTime tz (date_at (max d1 d2) 23 59 59 999)\<rparr>
          \<and> getTime tz (date_at (min d1 d2) 0 0 0 0)
               < getTime tz (date_at (max d1 d2) 23 59 59 999)
          \<and> getTime tz (date_at (max d1 d2) 23 59 59 999) + 1
               - getTime tz (date_at (min d1 d2) 0 0 0 0)
               = (max d1 d2 - min d1 d2 + 1) * 86400000)"
proof (intro conjI impI)
  assume "startDate cal = None \<or> endDate cal = None"
  then show "getRange tz cal = None"
    by (auto simp: getRange_def split: option.splits)
next
  assume "startDate cal = Some sd \<and> endDate cal = Some ed \<and> local_day sd \<le> local_day ed"
  then show "getRange tz cal
              = Some \<lparr>range_startMs = getTime tz (date_at (local_day sd) 0 0 0 0),
                       range_endMs = getTime tz (date_at (local_day ed) 23 59 59 999)\<rparr>"
    by (simp add: getRange_def Let_def)
next
  assume "startDate cal = Some sd \<and> endDate cal = Some ed \<and> local_day sd \<le> local_day ed"
  then show "getTime tz (date_at (local_day sd) 0 0 0 0)
               < getTime tz (date_at (local_day ed) 23 59 59 999)"
    by (simp add: date_at_def getTime_def)
next
  assume "step cal = ''start''"
  then show "getRange tz (click_day tz cal d1) = None"
    by (simp add: click_day_def getRange_def Let_def)
next
  assume st: "step cal = ''start''"
  have c1: "click_day tz cal d1
              = \<lparr>startDate = Some (date_at d1 0 0 0 0), endDate = None, step = ''end''\<rparr>"
    using st by (simp add: click_day_def Let_def)
  show "getRange tz (click_day tz (click_day tz cal d1) d2)
               = Some \<lparr>range_startMs = getTime tz (date_at (min d1 d2) 0 0 0 0),
                        range_endMs = getTime tz (date_at (max d1 d2) 23 59 59 999)\<rparr>"
    unfolding c1
    by (cases "d2 < d1") (simp_all add: click_day_def getRange_def Let_def date_at_def getTime_def)
next
  have "min d1 d2 \<le> max d1 d2" by simp
  then show "getTime tz (date_at (min d1 d2) 0 0 0 0)
               < getTime tz (date_at (max d1 d2) 23 59 59 999)"
    by (simp add: date_at_def getTime_def)
next
  show "getTime tz (date_at (max d1 d2) 23 59 59 999) + 1
               - getTime tz (date_at (min d1 d2) 0 0 0 0)
               = (max d1 d2 - min d1 d2 + 1) * 86400000"
    by (simp add: date_at_def getTime_def algebra_simps)
qed

theorem picked_range_whole_days_witness:
  "startDate (createRangeCalendar None None) = None
   \<and> getRange 0 (createRangeCalendar None None) = None
   \<and> step (createRangeCalendar None None) = ''start''
   \<and> getRange 0 (click_day 0 (createRangeCalendar None None) 5) = None
   \<and> getRange 0 (picked_days 5 3) = Some \<lparr>range_startMs = 259200000, range_endMs = 518399999\<rparr>
   \<and> (259200000 :: int) < 518399999
   \<and> startDate (picked_days 5 3) = Some (date_at 3 0 0 0 0)
   \<and> endDate (picked_days 5 3) = Some (date_at 5 0 0 0 0)
   \<and> local_day (date_at 3 0 0 0 0) \<le> local_day (date_at 5 0 0 0 0)"
proof -
  have s: "step (createRangeCalendar None None) = ''start''"
      "startDate (createRangeCalendar None None) = None"
    by (simp_all add: createRangeCalendar_def)
  have t: "getTime 0 (date_at (min 5 3) 0 0 0 0) = 259200000"
      "getTime 0 (date_at (max 5 3) 23 59 59 999) = 518399999"
    by (simp_all add: date_at_def getTime_def)
  have p: "startDate (picked_days 5 3) = Some (date_at 3 0 0 0 0)"
      "endDate (picked_days 5 3) = Some (date_at 5 0 0 0 0)"
      "local_day (date_at 3 0 0 0 0) \<le> local_day (date_at 5 0 0 0 0)"
    by (simp_all add: picked_days_def click_day_def createRangeCalendar_def Let_def
        date_at_def getTime_def)
  from picked_range_whole_days[of "createRangeCalendar None None" 0 "date_at 3 0 0 0 0"
      "date_at 5 0 0 0 0" 5 3] s t
  have a: "getRange 0 (createRangeCalendar None None) = None
      \<and> getRange 0 (click_day 0 (createRangeCalendar None None) 5) = None
      \<and> getRange 0 (picked_days 5 3) = Some \<lparr>range_startMs = 259200000, range_endMs = 518399999\<rparr>"
    by (simp add: picked_days_def)
  from picked_range_whole_days[of "picked_days 5 3" 0 "date_at 3 0 0 0 0"
      "date_at 5 0 0 0 0" 5 3] p
  have b: "getRange 0 (picked_days 5 3)
      = Some \<lparr>range_startMs = getTime 0 (date_at (local_day (date_at 3 0 0 0 0)) 0 0 0 0),
               range_endMs = getTime 0 (date_at (local_day (date_at 5 0 0 0 0)) 23 59 59 999)\<rparr>"
    by blast
  show ?thesis using a s p by simp
qed

section \<open>Claims about the persisted cost per kWh\<close>

lemma parseDecimal_quarter: "parseDecimal ''0.25'' = Some (1 / 4)"
  by (simp add: parseDecimal_def unsigned_decimal_def is_digit_def)
lemma parseDecimal_minus_five: "parseDecimal ''-5'' = Some (- 5)"
  by (simp add: parseDecimal_def unsigned_decimal_def is_digit_def)
lemma parseDecimal_abc: "parseDecimal ''abc'' = None"
  by (simp add: parseDecimal_def unsigned_decimal_def is_digit_def)

text \<open>
  C9, as amended. Loading the persisted cost per kWh takes the stored string parsed as a
  float when the key is present and the string parses to a nonzero number, and keeps the
  current value (the fixed default 0.3102 at start-up) when the stored string is unparsable.
  When the key is absent, the value of the cost input field is parsed instead and taken
  when it is a nonzero number; with no such field or an unparsable value the current value
  is kept. The resulting cost per kWh is at least 0 whenever the current value and the
  parsed value are.
\<close>

theorem cost_loaded_from_storage:
  "(stored = Some v \<and> parseFloat v = Some x \<and> x \<noteq> 0
      \<longrightarrow> costPerKwh (loadCostFromStorage parseFloat stored input st) = x)
   \<and> (stored = Some v \<and> parseFloat v = None
      \<longrightarrow> costPerKwh (loadCostFromStorage parseFloat stored input st) = costPerKwh st)
   \<and> (stored = None \<and> input = Some w \<and> parseFloat w = Some x \<and> x \<noteq> 0
      \<longrightarrow> costPerKwh (loadCostFromStorage parseFloat stored input st) = x)
   \<and> (stored = None \<and> input = Some w \<and> parseFloat w = None
      \<longrightarrow> costPerKwh (loadCostFromStorage parseFloat stored input st) = costPerKwh st)
   \<and> (stored = None \<and> input = None
      \<longrightarrow> costPerKwh (loadCostFromStorage parseFloat stored input st) = costPerKwh st)
   \<and> (0 \<le> costPerKwh st
       \<and> (\<forall>s y. (stored = Some s \<or> input = Some s) \<and> parseFloat s = Some y \<longrightarrow> 0 \<le> y)
      \<longrightarrow> 0 \<le> costPerKwh (loadCostFromStorage parseFloat stored input st))
   \<and> costPerKwh (fetchReadings init_state rows) = default_costPerKwh"
  by (auto simp: loadCostFromStorage_def fetchReadings_def Let_def updateChart_series init_state_def
      split: option.splits)


theorem cost_loaded_from_storage_witness:
  "parseDecimal ''0.25'' = Some (1 / 4) \<and> parseDecimal ''abc'' = None
   \<and> costPerKwh (loadCostFromStorage parseDecimal (Some ''0.25'') (Some ''abc'') init_state) = 1 / 4
   \<and> costPerKwh (loadCostFromStorage parseDecimal (Some ''abc'') (Some ''0.25'') init_state)
        = default_costPerKwh
   \<and> costPerKwh (loadCostFromStorage parseDecimal None (Some ''0.25'') init_state) = 1 / 4
   \<and> costPerKwh (loadCostFromStorage parseDecimal None (Some ''abc'') init_state)
        = default_costPerKwh
   \<and> costPerKwh (loadCostFromStorage parseDecimal None None init_state) = default_costPerKwh
   \<and> 0 \<le> costPerKwh (loadCostFromStorage parseDecimal (Some ''0.25'') (Some ''abc'') init_state)"
proof -
  have c: "costPerKwh init_state = default_costPerKwh" by (simp add: init_state_def)
  have d: "0 \<le> default_costPerKwh" by (simp add: default_costPerKwh_def)
  note t1 = cost_loaded_from_storage[of "Some ''0.25''" "''0.25''" parseDecimal "1 / 4"
      "Some ''abc''" init_state "''abc''"]
  note t2 = cost_loaded_from_storage[of "Some ''abc''" "''abc''" parseDecimal "1 / 4"
      "Some ''0.25''" init_state "''0.25''"]
  note t3 = cost_loaded_from_storage[of None "''abc''" parseDecimal "1 / 4"
      "Some ''0.25''" init_state "''0.25''"]
  note t4 = cost_loaded_from_storage[of None "''abc''" parseDecimal "1 / 4"
      "Some ''abc''" init_state "''abc''"]
  note t5 = cost_loaded_from_storage[of None "''abc''" parseDecimal "1 / 4"
      None init_state "''abc''"]
  from t1 parseDecimal_quarter have a1: "costPerKwh (loadCostFromStorage parseDecimal (Some ''0.25'') (Some ''abc'') init_state) = 1 / 4"
    by simp
  from t2 parseDecimal_abc c have a2: "costPerKwh (loadCostFromStorage parseDecimal (Some ''abc'') (Some ''0.25'') init_state)
        = default_costPerKwh" by simp
  from t3 parseDecimal_quarter have a3: "costPerKwh (loadCostFromStorage parseDecimal None (Some ''0.25'') init_state) = 1 / 4"
    by simp
  from t4 parseDecimal_abc c have a4: "costPerKwh (loadCostFromStorage parseDecimal None (Some ''abc'') init_state)
        = default_costPerKwh" by simp
  from t5 c have a5: "costPerKwh (loadCostFromStorage parseDecimal None None init_state) = default_costPerKwh"
    by simp
  have h: "\<forall>s y. (Some ''0.25'' = Some s \<or> Some ''abc'' = Some s) \<and> parseDecimal s = Some y
             \<longrightarrow> 0 \<le> y"
  proof (intro allI impI)
    fix s y
    assume a: "(Some ''0.25'' = Some s \<or> Some ''abc'' = Some s) \<and> parseDecimal s = Some y"
    then have "s = ''0.25'' \<or> s = ''abc''" by (simp add: eq_commute)
    then show "0 \<le> y"
    proof
      assume "s = ''0.25''"
      with a parseDecimal_quarter show ?thesis by simp
    next
      assume "s = ''abc''"
      with a parseDecimal_abc show ?thesis by simp
    qed
  qed
  note nn = t1[THEN conjunct2, THEN conjunct2, THEN conjunct2, THEN conjunct2, THEN conjunct2,
      THEN conjunct1]
  have a6: "0 \<le> costPerKwh (loadCostFromStorage parseDecimal (Some ''0.25'') (Some ''abc'') init_state)"
  proof (rule mp[OF nn])
    show "0 \<le> costPerKwh init_state
       \<and> (\<forall>s y. (Some ''0.25'' = Some s \<or> Some ''abc'' = Some s) \<and> parseDecimal s = Some y
             \<longrightarrow> 0 \<le> y)"
      using c d h by (simp only:)
  qed
  show ?thesis using parseDecimal_quarter parseDecimal_abc a1 a2 a3 a4 a5 a6 by simp
qed

text \<open>
  C9 as stated fails: with the key absent and \<open>0.25\<close> in the input field the cost is 0.25,
  not the default constant; and a stored \<open>-5\<close> is loaded as a negative cost.
\<close>

theorem cost_loaded_counterexample:
  "costPerKwh (loadCostFromStorage parseDecimal None (Some ''0.25'') init_state) = 1 / 4
   \<and> default_costPerKwh \<noteq> 1 / 4
   \<and> costPerKwh (loadCostFromStorage parseDecimal (Some ''-5'') None init_state) = - 5"
  by (simp add: loadCostFromStorage_def parseDecimal_quarter parseDecimal_minus_five default_costPerKwh_def)

section \<open>Claims about the chart requests of the mobile dashboard\<close>

text \<open>
  C7 says that every new load-chart action cancels the chart fetch still in flight from a
  prior action, so that the chart never shows a stale request. The code does not: after
  the chart was shown for 7 days, two changes of the days input issue requests 1 (30 days)
  and 2 (90 days); request 1 is still pending when request 2 is issued and no controller
  is aborted; when request 2 settles before request 1, the chart ends up showing the
  30 days of the older request.
\<close>

theorem stale_chart_after_days_change:
  "pending (mobile_run [ShowChartClick 7, Settled 0 True, DaysChange 30, DaysChange 90])
     = [(1, 30), (2, 90)]
   \<and> aborted (mobile_run [ShowChartClick 7, Settled 0 True, DaysChange 30, DaysChange 90]) = []
   \<and> chart_days (mobile_run [ShowChartClick 7, Settled 0 True, DaysChange 30, DaysChange 90,
                              Settled 2 True, Settled 1 True]) = Some 30"
  by (simp add: mobile_run_def mobile_init_def showChart_click_def handleDaysChange_def
      fetchChartData_def fetchChartData_settled_def Let_def)

end
